theory Spec2Isabelle
  imports Complex_Main "HOL-Library.Sublist" "HOL-Library.Log_Nat"
begin

section \<open>Texts\<close>

text \<open>
  The parsers of \<^verbatim>\<open>src/ocr\<close> work on Python \<^verbatim>\<open>str\<close> values. A text is modelled as a
  \<^typ>\<open>string\<close>, a list of 8-bit characters read as the code points 0 to 255; code points
  above 255 are outside the model. The character classes below are the ones Python 3 uses
  for \<^verbatim>\<open>str\<close> on these code points: \<^verbatim>\<open>str.isspace\<close>, \<^verbatim>\<open>str.strip\<close>, \<^verbatim>\<open>str.split\<close> and the
  pattern \<^verbatim>\<open>\s\<close> agree on the white space, \<^verbatim>\<open>\d\<close> is the ten ASCII digits, and
  \<^verbatim>\<open>\w\<close> is the alphanumeric characters and the underscore.
\<close>

definition code :: "char \<Rightarrow> int" where
  "code c = of_char c"

definition is_digit :: "char \<Rightarrow> bool" where
  "is_digit c = (48 \<le> code c \<and> code c \<le> 57)"

definition is_space :: "char \<Rightarrow> bool" where
  "is_space c = ((9 \<le> code c \<and> code c \<le> 13) \<or> (28 \<le> code c \<and> code c \<le> 32)
                 \<or> code c = 133 \<or> code c = 160)"

definition is_upper_ascii :: "char \<Rightarrow> bool" where
  "is_upper_ascii c = (65 \<le> code c \<and> code c \<le> 90)"

definition is_lower_ascii :: "char \<Rightarrow> bool" where
  "is_lower_ascii c = (97 \<le> code c \<and> code c \<le> 122)"

definition is_word :: "char \<Rightarrow> bool" where
  "is_word c = (is_digit c \<or> is_upper_ascii c \<or> is_lower_ascii c \<or> code c = 95
     \<or> code c \<in> {170, 178, 179, 181, 185, 186, 188, 189, 190}
     \<or> (192 \<le> code c \<and> code c \<noteq> 215 \<and> code c \<noteq> 247))"

text \<open>
  Simple case mapping of one character (the pairs inside the code points 0 to 255). A
  lower-case letter lies 32 above its upper-case letter, and the upper-case ranges have the
  bit of value 32 clear: the mapping sets or clears that bit.
\<close>

definition with_bit5 :: "bool \<Rightarrow> char \<Rightarrow> char" where
  "with_bit5 v c = (case c of Char b0 b1 b2 b3 b4 b5 b6 b7 \<Rightarrow> Char b0 b1 b2 b3 b4 v b6 b7)"

definition to_lower :: "char \<Rightarrow> char" where
  "to_lower c = (if is_upper_ascii c \<or> (192 \<le> code c \<and> code c \<le> 222 \<and> code c \<noteq> 215)
                 then with_bit5 True c else c)"

definition to_upper :: "char \<Rightarrow> char" where
  "to_upper c = (if is_lower_ascii c \<or> (224 \<le> code c \<and> code c \<le> 254 \<and> code c \<noteq> 247)
                 then with_bit5 False c else c)"

text \<open>
  \<^verbatim>\<open>str.upper\<close>. The sharp s (223) becomes \<^verbatim>\<open>SS\<close>. The upper-case forms of the micro
  sign (181) and of y with diaeresis (255) are the code points 924 and 376, outside the
  model; \<open>upper\<close> leaves the two characters as they are, so it is \<^verbatim>\<open>str.upper\<close> only on
  the texts without them (\<open>upper_exact\<close>). The parsers upper-case either a text captured
  by a class of ASCII characters, which has neither, or a line that is then only searched
  for an ASCII phrase, where the two characters and their upper-case forms alike match
  nothing.
\<close>

definition upper_exact :: "string \<Rightarrow> bool" where
  "upper_exact s = list_all (\<lambda>c. code c \<noteq> 181 \<and> code c \<noteq> 255) s"


definition upper :: "string \<Rightarrow> string" where
  "upper s = concat (map (\<lambda>c. if code c = 223 then ''SS'' else [to_upper c]) s)"

text \<open>\<^verbatim>\<open>s.strip()\<close> and \<^verbatim>\<open>s.strip(chars)\<close>.\<close>

definition strip_with :: "(char \<Rightarrow> bool) \<Rightarrow> string \<Rightarrow> string" where
  "strip_with P s = rev (dropWhile P (rev (dropWhile P s)))"

definition strip :: "string \<Rightarrow> string" where
  "strip s = strip_with is_space s"

definition strip_chars :: "string \<Rightarrow> string \<Rightarrow> string" where
  "strip_chars cs s = strip_with (\<lambda>c. c \<in> set cs) s"

text \<open>
  \<^verbatim>\<open>s.replace(old, new)\<close>: the occurrences of \<^verbatim>\<open>old\<close> are found from left to right
  and do not overlap. With an empty \<^verbatim>\<open>old\<close>, Python puts \<^verbatim>\<open>new\<close> before every
  character and at the end.
\<close>

fun replace_from :: "string \<Rightarrow> string \<Rightarrow> string \<Rightarrow> string" where
  "replace_from old new [] = []"
| "replace_from old new (c # cs) =
     (if prefix old (c # cs) then new @ replace_from old new (drop (length old - 1) cs)
      else c # replace_from old new cs)"

definition replace :: "string \<Rightarrow> string \<Rightarrow> string \<Rightarrow> string" where
  "replace old new s =
     (if old = [] then concat (map (\<lambda>c. new @ [c]) s) @ new else replace_from old new s)"

text \<open>\<^verbatim>\<open>needle in s\<close>.\<close>

fun contains :: "string \<Rightarrow> string \<Rightarrow> bool" where
  "contains needle [] = (needle = [])"
| "contains needle (c # cs) = (prefix needle (c # cs) \<or> contains needle cs)"

text \<open>\<^verbatim>\<open>s.split(sep)\<close> for a separator of one character: always at least one piece.\<close>

fun split_on :: "char \<Rightarrow> string \<Rightarrow> string list" where
  "split_on sep [] = [[]]"
| "split_on sep (c # cs) =
     (case split_on sep cs of
        [] \<Rightarrow> [[c]]
      | p # ps \<Rightarrow> if c = sep then [] # p # ps else (c # p) # ps)"

text \<open>\<^verbatim>\<open>s.split()\<close>: the maximal runs of characters that are not white space.\<close>

fun split_ws :: "string \<Rightarrow> string list" where
  "split_ws [] = []"
| "split_ws (c # cs) =
     (if is_space c then split_ws cs
      else (case cs of
              [] \<Rightarrow> [[c]]
            | d # ds \<Rightarrow> if is_space d then [c] # split_ws cs
                        else (case split_ws cs of [] \<Rightarrow> [[c]] | w # ws \<Rightarrow> (c # w) # ws)))"

text \<open>
  \<^verbatim>\<open>s.splitlines()\<close>: a line ends at \<^verbatim>\<open>\n\<close>, \<^verbatim>\<open>\r\<close>, \<^verbatim>\<open>\r\n\<close>, \<^verbatim>\<open>\v\<close>, \<^verbatim>\<open>\f\<close>,
  the separators 28 to 30, or the next-line character 133; the line ends are dropped and
  a text that ends with a line end has no empty last line.
\<close>

definition is_linebreak :: "char \<Rightarrow> bool" where
  "is_linebreak c = ((10 \<le> code c \<and> code c \<le> 13) \<or> (28 \<le> code c \<and> code c \<le> 30)
                     \<or> code c = 133)"

fun splitlines_acc :: "string \<Rightarrow> string \<Rightarrow> string list" where
  "splitlines_acc cur [] = (if cur = [] then [] else [rev cur])"
| "splitlines_acc cur [c] =
     (if is_linebreak c then [rev cur] else [rev (c # cur)])"
| "splitlines_acc cur (c # d # ds) =
     (if code c = 13 \<and> code d = 10 then rev cur # splitlines_acc [] ds
      else if is_linebreak c then rev cur # splitlines_acc [] (d # ds)
      else splitlines_acc (c # cur) (d # ds))"

definition splitlines :: "string \<Rightarrow> string list" where
  "splitlines s = splitlines_acc [] s"

text \<open>\<^verbatim>\<open>sep.join(parts)\<close>.\<close>

fun join :: "string \<Rightarrow> string list \<Rightarrow> string" where
  "join sep [] = []"
| "join sep [p] = p"
| "join sep (p # q # ps) = p @ sep @ join sep (q # ps)"

section \<open>Floats\<close>

text \<open>
  A Python \<^verbatim>\<open>float\<close> is an IEEE 754 double: a finite value, an infinity or a NaN. A
  finite double is modelled by the rational number it stands for (the sign of a zero is
  not kept). \<open>round_to_double\<close> is the rounding to the nearest double, ties to even: the
  spacing of the doubles around a number of binary exponent \<open>e\<close> is \<open>2 ^ (e - 52)\<close> (and
  \<open>2 ^ (- 1074)\<close> below \<open>2 ^ (- 1022)\<close>), and a number from \<open>2 ^ 1024 - 2 ^ 970\<close> on, half a
  step above the largest double, rounds to infinity.
\<close>

datatype pyfloat = Fin rat | PInf | NInf | NaN

definition pow2 :: "int \<Rightarrow> rat" where
  "pow2 e = (if 0 \<le> e then 2 ^ nat e else 1 / 2 ^ nat (- e))"

definition round_half_even :: "rat \<Rightarrow> int" where
  "round_half_even y =
     (let f = \<lfloor>y\<rfloor>; d = y - of_int f
      in if d < 1 / 2 then f else if 1 / 2 < d then f + 1 else if even f then f else f + 1)"

definition log2_floor :: "rat \<Rightarrow> int" where
  "log2_floor a =
     (let (p, q) = quotient_of a; e0 = bitlen p - bitlen q
      in if pow2 e0 \<le> a then e0 else e0 - 1)"

definition overflow_threshold :: int where
  "overflow_threshold = 2 ^ 1024 - 2 ^ 970"

definition round_to_double :: "rat \<Rightarrow> pyfloat" where
  "round_to_double x =
     (let a = \<bar>x\<bar>
      in if a = 0 then Fin 0
         else if overflow_threshold \<le> \<lfloor>a\<rfloor> then (if 0 < x then PInf else NInf)
         else let q = pow2 (max (log2_floor a) (- 1022) - 52)
              in Fin (sgn x * of_int (round_half_even (a / q)) * q))"

text \<open>
  \<^verbatim>\<open>float(s)\<close> for a text: white space around the number is dropped; then an optional
  sign, and \<^verbatim>\<open>inf\<close>, \<^verbatim>\<open>infinity\<close> or \<^verbatim>\<open>nan\<close> in any case, or a decimal number with
  an optional fraction and exponent, where one underscore may stand between two digits.
  Anything else raises \<^verbatim>\<open>ValueError\<close>, which is \<open>None\<close> here. The decimal number is
  rounded to the nearest double.
\<close>

definition digit_val :: "char \<Rightarrow> int" where
  "digit_val c = code c - 48"

definition dec_val :: "string \<Rightarrow> int" where
  "dec_val ds = foldl (\<lambda>a c. 10 * a + digit_val c) 0 ds"

fun digit_tail :: "string \<Rightarrow> string \<times> string" where
  "digit_tail [] = ([], [])"
| "digit_tail [c] = (if is_digit c then ([c], []) else ([], [c]))"
| "digit_tail (c # d # cs) =
     (if is_digit c then (case digit_tail (d # cs) of (ds, r) \<Rightarrow> (c # ds, r))
      else if c = CHR ''_'' \<and> is_digit d then digit_tail (d # cs)
      else ([], c # d # cs))"

definition digitpart :: "string \<Rightarrow> (string \<times> string) option" where
  "digitpart s = (case s of [] \<Rightarrow> None | c # cs \<Rightarrow> if is_digit c then Some (digit_tail s) else None)"

definition mantissa :: "string \<Rightarrow> (string \<times> string \<times> string) option" where
  "mantissa s =
     (case digitpart s of
        Some (ds, r) \<Rightarrow>
          (case r of
             c # r' \<Rightarrow>
               if c = CHR ''.'' then
                 (case digitpart r' of Some (fs, r'') \<Rightarrow> Some (ds, fs, r'') | None \<Rightarrow> Some (ds, [], r'))
               else Some (ds, [], r)
           | [] \<Rightarrow> Some (ds, [], []))
      | None \<Rightarrow>
          (case s of
             c # r' \<Rightarrow>
               if c = CHR ''.'' then
                 (case digitpart r' of Some (fs, r'') \<Rightarrow> Some ([], fs, r'') | None \<Rightarrow> None)
               else None
           | [] \<Rightarrow> None))"

definition exponent :: "string \<Rightarrow> int option" where
  "exponent r =
     (case r of
        [] \<Rightarrow> Some 0
      | c # r' \<Rightarrow>
          if c = CHR ''e'' \<or> c = CHR ''E'' then
            (let (neg, r'') = (case r' of
                                 [] \<Rightarrow> (False, [])
                               | d # t \<Rightarrow> if d = CHR ''-'' then (True, t)
                                          else if d = CHR ''+'' then (False, t) else (False, r'))
             in case digitpart r'' of
                  Some (es, []) \<Rightarrow> Some (if neg then - dec_val es else dec_val es)
                | Some (es, x # xs) \<Rightarrow> None
                | None \<Rightarrow> None)
          else None)"

definition scale10 :: "int \<Rightarrow> int \<Rightarrow> rat" where
  "scale10 m e = (if 0 \<le> e then of_int m * 10 ^ nat e else of_int m / 10 ^ nat (- e))"

definition abs_float :: "string \<Rightarrow> pyfloat option" where
  "abs_float s =
     (if map to_lower s \<in> {''inf'', ''infinity''} then Some PInf
      else if map to_lower s = ''nan'' then Some NaN
      else (case mantissa s of
              None \<Rightarrow> None
            | Some (ds, fs, r) \<Rightarrow>
                (case exponent r of
                   None \<Rightarrow> None
                 | Some e \<Rightarrow> Some (round_to_double (scale10 (dec_val (ds @ fs)) (e - int (length fs)))))))"

definition f_neg :: "pyfloat \<Rightarrow> pyfloat" where
  "f_neg x = (case x of Fin q \<Rightarrow> Fin (- q) | PInf \<Rightarrow> NInf | NInf \<Rightarrow> PInf | NaN \<Rightarrow> NaN)"

definition py_float :: "string \<Rightarrow> pyfloat option" where
  "py_float s =
     (case strip s of
        [] \<Rightarrow> None
      | c # cs \<Rightarrow> if c = CHR ''-'' then map_option f_neg (abs_float cs)
                  else if c = CHR ''+'' then abs_float cs
                  else abs_float (c # cs))"

text \<open>Comparison and addition of doubles; a NaN compares false with everything.\<close>

fun f_gt :: "pyfloat \<Rightarrow> pyfloat \<Rightarrow> bool" where
  "f_gt NaN y = False"
| "f_gt x NaN = False"
| "f_gt (Fin a) (Fin b) = (b < a)"
| "f_gt PInf y = (y \<noteq> PInf)"
| "f_gt x PInf = False"
| "f_gt NInf y = False"
| "f_gt x NInf = True"

fun f_add :: "pyfloat \<Rightarrow> pyfloat \<Rightarrow> pyfloat" where
  "f_add (Fin a) (Fin b) = round_to_double (a + b)"
| "f_add NaN y = NaN"
| "f_add x NaN = NaN"
| "f_add PInf y = (if y = NInf then NaN else PInf)"
| "f_add NInf y = (if y = PInf then NaN else NInf)"
| "f_add x PInf = PInf"
| "f_add x NInf = NInf"

text \<open>
  \<^verbatim>\<open>max(xs)\<close> of a non-empty list keeps the first element no later one is greater than.
\<close>

definition f_max :: "pyfloat \<Rightarrow> pyfloat list \<Rightarrow> pyfloat" where
  "f_max x xs = foldl (\<lambda>best y. if f_gt y best then y else best) x xs"

text \<open>
  \<^verbatim>\<open>sum(xs)\<close> adds from the left, starting at 0 (Python 3.12 and later add doubles with a
  compensated sum, which can differ in the last bit; no property below depends on it).
  \<^verbatim>\<open>round(x, 2)\<close> rounds the exact value of \<open>x\<close> to two decimals, ties to even, and takes
  the nearest double; on an infinity or a NaN it is the identity.
\<close>

definition f_sum :: "pyfloat list \<Rightarrow> pyfloat" where
  "f_sum xs = foldl f_add (Fin 0) xs"

definition round2 :: "pyfloat \<Rightarrow> pyfloat" where
  "round2 x = (case x of Fin q \<Rightarrow> round_to_double (of_int (round_half_even (q * 100)) / 100) | _ \<Rightarrow> x)"

section \<open>Regular expressions\<close>

text \<open>
  The patterns of the parsers use a small part of Python's \<^verbatim>\<open>re\<close>: literals,
  character classes, counted repetition of one character class (greedy or lazy),
  optional groups, alternation, capture groups, one positive lookahead, \<^verbatim>\<open>\b\<close>,
  \<^verbatim>\<open>^\<close>, \<^verbatim>\<open>$\<close> and \<^verbatim>\<open>\Z\<close>. They are matched as \<^verbatim>\<open>re\<close> does, by backtracking:
  alternatives in the order written, a greedy repetition from the longest run down, a
  lazy one from the shortest up.
\<close>

datatype flag = IGNORECASE | DOTALL | MULTILINE

datatype cls = Chars string | Range char char | Digit | Space | Word

datatype atom = In "cls list" | NotIn "cls list" | AnyChar

datatype regex =
    Lit string
  | Rep atom nat "nat option" bool
  | Cat regex regex
  | Alt regex regex
  | Grp nat regex
  | Opt regex
  | Ahead regex
  | WordB
  | Bol
  | Eol
  | EndZ

fun in_cls :: "char \<Rightarrow> cls \<Rightarrow> bool" where
  "in_cls c (Chars cs) = (c \<in> set cs)"
| "in_cls c (Range lo hi) = (code lo \<le> code c \<and> code c \<le> code hi)"
| "in_cls c Digit = is_digit c"
| "in_cls c Space = is_space c"
| "in_cls c Word = is_word c"

definition in_set :: "flag list \<Rightarrow> cls list \<Rightarrow> char \<Rightarrow> bool" where
  "in_set fl cs c =
     (list_ex (in_cls c) cs
      \<or> (IGNORECASE \<in> set fl \<and> (list_ex (in_cls (to_lower c)) cs \<or> list_ex (in_cls (to_upper c)) cs)))"

fun amatch :: "flag list \<Rightarrow> atom \<Rightarrow> char \<Rightarrow> bool" where
  "amatch fl (In cs) c = in_set fl cs c"
| "amatch fl (NotIn cs) c = (\<not> in_set fl cs c)"
| "amatch fl AnyChar c = (DOTALL \<in> set fl \<or> code c \<noteq> 10)"

definition same_char :: "flag list \<Rightarrow> char \<Rightarrow> char \<Rightarrow> bool" where
  "same_char fl p c = (p = c \<or> (IGNORECASE \<in> set fl \<and> to_lower p = to_lower c))"

fun lit_at :: "flag list \<Rightarrow> string \<Rightarrow> string \<Rightarrow> bool" where
  "lit_at fl [] s = True"
| "lit_at fl (p # ps) [] = False"
| "lit_at fl (p # ps) (c # cs) = (same_char fl p c \<and> lit_at fl ps cs)"

definition word_at :: "string \<Rightarrow> nat \<Rightarrow> bool" where
  "word_at s i = (i < length s \<and> is_word (s ! i))"

definition boundary :: "string \<Rightarrow> nat \<Rightarrow> bool" where
  "boundary s i = ((0 < i \<and> word_at s (i - 1)) \<noteq> word_at s i)"

definition at_bol :: "flag list \<Rightarrow> string \<Rightarrow> nat \<Rightarrow> bool" where
  "at_bol fl s i = (i = 0 \<or> (MULTILINE \<in> set fl \<and> i \<le> length s \<and> code (s ! (i - 1)) = 10))"

definition at_eol :: "flag list \<Rightarrow> string \<Rightarrow> nat \<Rightarrow> bool" where
  "at_eol fl s i =
     (i = length s
      \<or> (Suc i = length s \<and> code (s ! i) = 10)
      \<or> (MULTILINE \<in> set fl \<and> i < length s \<and> code (s ! i) = 10))"

type_synonym caps = "nat \<Rightarrow> (nat \<times> nat) option"

fun first_some :: "('a \<Rightarrow> 'b option) \<Rightarrow> 'a list \<Rightarrow> 'b option" where
  "first_some f [] = None"
| "first_some f (x # xs) = (case f x of Some y \<Rightarrow> Some y | None \<Rightarrow> first_some f xs)"

text \<open>
  \<open>bt fl r s i c k\<close> matches \<open>r\<close> in \<open>s\<close> from position \<open>i\<close> with the groups \<open>c\<close> set so
  far, and hands the end position and the groups to the rest of the match \<open>k\<close>; when the
  rest fails, the next way of matching \<open>r\<close> is tried.
\<close>

fun bt :: "flag list \<Rightarrow> regex \<Rightarrow> string \<Rightarrow> nat \<Rightarrow> caps
             \<Rightarrow> (nat \<Rightarrow> caps \<Rightarrow> (nat \<times> caps) option) \<Rightarrow> (nat \<times> caps) option" where
  "bt fl (Lit w) s i c k = (if lit_at fl w (drop i s) then k (i + length w) c else None)"
| "bt fl (Rep a m n g) s i c k =
     (let avail = length (takeWhile (amatch fl a) (drop i s));
          hi = (case n of None \<Rightarrow> avail | Some b \<Rightarrow> min b avail)
      in if hi < m then None
         else first_some (\<lambda>cnt. k (i + cnt) c) (if g then rev [m..<Suc hi] else [m..<Suc hi]))"
| "bt fl (Cat r1 r2) s i c k = bt fl r1 s i c (\<lambda>j c'. bt fl r2 s j c' k)"
| "bt fl (Alt r1 r2) s i c k =
     (case bt fl r1 s i c k of Some res \<Rightarrow> Some res | None \<Rightarrow> bt fl r2 s i c k)"
| "bt fl (Grp n r) s i c k = bt fl r s i c (\<lambda>j c'. k j (c'(n := Some (i, j))))"
| "bt fl (Opt r) s i c k =
     (case bt fl r s i c k of Some res \<Rightarrow> Some res | None \<Rightarrow> k i c)"
| "bt fl (Ahead r) s i c k =
     (case bt fl r s i c (\<lambda>j c'. Some (j, c')) of None \<Rightarrow> None | Some (j, c') \<Rightarrow> k i c')"
| "bt fl WordB s i c k = (if boundary s i then k i c else None)"
| "bt fl Bol s i c k = (if at_bol fl s i then k i c else None)"
| "bt fl Eol s i c k = (if at_eol fl s i then k i c else None)"
| "bt fl EndZ s i c k = (if i = length s then k i c else None)"

text \<open>Helpers to write patterns: a sequence, one character of a class, a class repeated.\<close>

fun Seq :: "regex list \<Rightarrow> regex" where
  "Seq [] = Lit []"
| "Seq [r] = r"
| "Seq (r # rs) = Cat r (Seq rs)"

definition One :: "atom \<Rightarrow> regex" where "One a = Rep a 1 (Some 1) True"
definition Star :: "atom \<Rightarrow> regex" where "Star a = Rep a 0 None True"
definition Plus :: "atom \<Rightarrow> regex" where "Plus a = Rep a 1 None True"
definition LazyStar :: "atom \<Rightarrow> regex" where "LazyStar a = Rep a 0 None False"
definition LazyPlus :: "atom \<Rightarrow> regex" where "LazyPlus a = Rep a 1 None False"
definition Maybe :: "atom \<Rightarrow> regex" where "Maybe a = Rep a 0 (Some 1) True"
definition Times :: "atom \<Rightarrow> nat \<Rightarrow> nat \<Rightarrow> regex" where "Times a m n = Rep a m (Some n) True"

abbreviation "ws_star \<equiv> Star (In [Space])"
abbreviation "ws_plus \<equiv> Plus (In [Space])"
abbreviation "digits m n \<equiv> Times (In [Digit]) m n"

text \<open>A match object: where the match starts and ends, and the groups.\<close>

record rmatch =
  m_start :: nat
  m_end :: nat
  m_caps :: caps

definition match_at :: "regex \<Rightarrow> flag list \<Rightarrow> string \<Rightarrow> nat \<Rightarrow> rmatch option" where
  "match_at r fl s i =
     (case bt fl r s i (\<lambda>n. None) (\<lambda>j c. Some (j, c)) of
        None \<Rightarrow> None
      | Some (j, c) \<Rightarrow> Some \<lparr>m_start = i, m_end = j, m_caps = c\<rparr>)"

text \<open>\<^verbatim>\<open>re.match\<close> tries position 0 only; \<^verbatim>\<open>re.search\<close> takes the leftmost start that matches.\<close>

definition re_match :: "regex \<Rightarrow> flag list \<Rightarrow> string \<Rightarrow> rmatch option" where
  "re_match r fl s = match_at r fl s 0"

definition search_from :: "regex \<Rightarrow> flag list \<Rightarrow> string \<Rightarrow> nat \<Rightarrow> rmatch option" where
  "search_from r fl s pos = first_some (match_at r fl s) [pos..<Suc (length s)]"

definition re_search :: "regex \<Rightarrow> flag list \<Rightarrow> string \<Rightarrow> rmatch option" where
  "re_search r fl s = search_from r fl s 0"

definition slice :: "string \<Rightarrow> nat \<Rightarrow> nat \<Rightarrow> string" where
  "slice s i j = take (j - i) (drop i s)"

text \<open>
  \<^verbatim>\<open>m.group(0)\<close> and \<^verbatim>\<open>m.group(n)\<close>. Python gives \<^verbatim>\<open>None\<close> for a group that took no
  part in the match; every group the parsers read lies outside the optional parts of its
  pattern, so it is set whenever the pattern matches.
\<close>

definition group0 :: "string \<Rightarrow> rmatch \<Rightarrow> string" where
  "group0 s m = slice s (m_start m) (m_end m)"

definition group :: "string \<Rightarrow> rmatch \<Rightarrow> nat \<Rightarrow> string" where
  "group s m n = (case m_caps m n of None \<Rightarrow> [] | Some (i, j) \<Rightarrow> slice s i j)"

text \<open>
  \<^verbatim>\<open>re.finditer\<close>: the matches from left to right, each search starting where the last
  match ended. Every pattern the parsers scan with matches at least one character; after
  an empty match the scan moves on by one character.
\<close>

function finditer_from :: "regex \<Rightarrow> flag list \<Rightarrow> string \<Rightarrow> nat \<Rightarrow> rmatch list" where
  "finditer_from r fl s pos =
     (if length s < pos then []
      else (case search_from r fl s pos of
              None \<Rightarrow> []
            | Some m \<Rightarrow> m # finditer_from r fl s (max (max (m_end m) (Suc (m_start m))) (Suc pos))))"
  by pat_completeness auto
termination
  by (relation "measure (\<lambda>(r, fl, s, pos). Suc (length s) - pos)") auto

definition finditer :: "regex \<Rightarrow> flag list \<Rightarrow> string \<Rightarrow> rmatch list" where
  "finditer r fl s = finditer_from r fl s 0"

text \<open>\<^verbatim>\<open>re.findall\<close> for a pattern without groups: the matched texts.\<close>

definition findall :: "regex \<Rightarrow> flag list \<Rightarrow> string \<Rightarrow> string list" where
  "findall r fl s = map (group0 s) (finditer r fl s)"

text \<open>\<^verbatim>\<open>re.sub(pattern, repl, s)\<close> for a replacement text without group references.\<close>

fun sub_pieces :: "string \<Rightarrow> string \<Rightarrow> nat \<Rightarrow> rmatch list \<Rightarrow> string" where
  "sub_pieces repl s pos [] = drop pos s"
| "sub_pieces repl s pos (m # ms) = slice s pos (m_start m) @ repl @ sub_pieces repl s (m_end m) ms"

definition re_sub :: "regex \<Rightarrow> flag list \<Rightarrow> string \<Rightarrow> string \<Rightarrow> string" where
  "re_sub r fl repl s = sub_pieces repl s 0 (finditer r fl s)"

text \<open>
  \<^verbatim>\<open>re.split(pattern, s)\<close> for a pattern without groups, and \<^verbatim>\<open>re.split(pattern, s)[0]\<close>,
  the text before the first match (the whole text when nothing matches), which is the same
  with or without groups in the pattern.
\<close>

fun split_pieces :: "string \<Rightarrow> nat \<Rightarrow> rmatch list \<Rightarrow> string list" where
  "split_pieces s pos [] = [drop pos s]"
| "split_pieces s pos (m # ms) = slice s pos (m_start m) # split_pieces s (m_end m) ms"

definition re_split :: "regex \<Rightarrow> flag list \<Rightarrow> string \<Rightarrow> string list" where
  "re_split r fl s = split_pieces s 0 (finditer r fl s)"

definition re_split_first :: "regex \<Rightarrow> flag list \<Rightarrow> string \<Rightarrow> string" where
  "re_split_first r fl s =
     (case re_search r fl s of None \<Rightarrow> s | Some m \<Rightarrow> slice s 0 (m_start m))"

section \<open>Debit notes\<close>

text \<open>
  \<^verbatim>\<open>normalize_text\<close> of \<^verbatim>\<open>debit_note_parser.py\<close>: the replacements of the table are
  applied one after the other, in the order of the dictionary, each to the result of the
  one before.
\<close>

definition normalize_replacements :: "(string \<times> string) list" where
  "normalize_replacements =
     [(''OOMEST1C'', ''DOMESTIC''), (''OOMESTIC'', ''DOMESTIC''), (''DQMESTIC'', ''DOMESTIC''),
      (''XELPER'', ''HELPER''),
      (''Roz'', ''R03''), (''Ros'', ''R03''), (''ROZ'', ''R03''),
      (''To1'', ''(T01)''), (''T01)'', ''(T01)''),
      (''CQPY'', ''COPY''), (''C0PY'', ''COPY''), (''COPV'', ''COPY''), (''COpy'', ''COPY''),
      (''CQRY'', ''COPY''), (''CQFY'', ''COPY'')]"

definition apply_replacements :: "(string \<times> string) list \<Rightarrow> string \<Rightarrow> string" where
  "apply_replacements tab text = foldl (\<lambda>t (k, v). replace k v t) text tab"

definition normalize_text :: "string \<Rightarrow> string" where
  "normalize_text text = apply_replacements normalize_replacements text"

text \<open>A trigger substring of the normalizer is a key of its table.\<close>

definition has_trigger :: "string \<Rightarrow> bool" where
  "has_trigger x = list_ex (\<lambda>(k, v). contains k x) normalize_replacements"

text \<open>Character classes that recur in the patterns.\<close>

abbreviation "upper_AZ \<equiv> Range (CHR ''A'') (CHR ''Z'')"
abbreviation "lower_az \<equiv> Range (CHR ''a'') (CHR ''z'')"
abbreviation "digit_09 \<equiv> Range (CHR ''0'') (CHR ''9'')"

text \<open>
  \<^verbatim>\<open>extract_first(pattern, text)\<close> of the debit-note parser: the first group of the first
  match, stripped, or the empty text; always with \<^verbatim>\<open>re.IGNORECASE | re.MULTILINE\<close>.
\<close>

definition extract_first :: "regex \<Rightarrow> string \<Rightarrow> string" where
  "extract_first pattern text =
     (case re_search pattern [IGNORECASE, MULTILINE] text of
        Some m \<Rightarrow> strip (group text m 1)
      | None \<Rightarrow> [])"

text \<open>\<^verbatim>\<open>\(+T01\)+\<close> and \<^verbatim>\<open>([A-Z0-9]{6,10})\s*(\(T01\))?\<close>\<close>

definition t01_pattern :: regex where
  "t01_pattern = Seq [Plus (In [Chars ''('']), Lit ''T01'', Plus (In [Chars '')''])]"

definition account_base_pattern :: regex where
  "account_base_pattern =
     Seq [Grp 1 (Times (In [upper_AZ, digit_09]) 6 10), ws_star, Opt (Grp 2 (Lit ''(T01)''))]"

definition clean_account_number :: "string \<Rightarrow> string" where
  "clean_account_number acc =
     (if acc = [] then []
      else let acc1 = upper acc;
               acc2 = replace ''S'' ''5'' (replace ''Q'' ''0'' (replace ''O'' ''0'' acc1));
               acc3 = re_sub t01_pattern [] ''(T01)'' acc2
           in case re_search account_base_pattern [] acc3 of
                Some m \<Rightarrow> group acc3 m 1 @ '' (T01)''
              | None \<Rightarrow> acc3)"

text \<open>\<^verbatim>\<open>ACC[O0Q]U?N?T\s+N[O0Q][.:;]?\s*([A-Z0-9 ()]+?)(?=\s+(POL|P0L|ENO|CLA)|\Z)\<close>\<close>

definition account_number_pattern :: regex where
  "account_number_pattern =
     Seq [Lit ''ACC'', One (In [Chars ''O0Q'']), Maybe (In [Chars ''U'']), Maybe (In [Chars ''N'']),
          Lit ''T'', ws_plus, Lit ''N'', One (In [Chars ''O0Q'']), Maybe (In [Chars ''.:;'']), ws_star,
          Grp 1 (LazyPlus (In [upper_AZ, digit_09, Chars '' ()''])),
          Ahead (Alt (Seq [ws_plus,
                           Grp 2 (Alt (Lit ''POL'') (Alt (Lit ''P0L'') (Alt (Lit ''ENO'') (Lit ''CLA''))))])
                     EndZ)]"

definition extract_account_number_dn :: "string \<Rightarrow> string" where
  "extract_account_number_dn text =
     (let acc = (case re_search account_number_pattern [IGNORECASE] text of
                   Some m \<Rightarrow> strip (group text m 1)
                 | None \<Rightarrow> [])
      in clean_account_number acc)"

text \<open>\<^verbatim>\<open>POLICY\s+N[O0Q][.:;]?\s*([A-Z0-9\-]{10,})\<close>\<close>

definition policy_number_pattern :: regex where
  "policy_number_pattern =
     Seq [Lit ''POLICY'', ws_plus, Lit ''N'', One (In [Chars ''O0Q'']), Maybe (In [Chars ''.:;'']), ws_star,
          Grp 1 (Rep (In [upper_AZ, digit_09, Chars ''-'']) 10 None True)]"

definition extract_policy_number :: "string \<Rightarrow> string" where
  "extract_policy_number text = extract_first policy_number_pattern text"

text \<open>
  \<^verbatim>\<open>(CLASS|POLICY|ACC)\b\<close>, \<^verbatim>\<open>[\s_]+\<close>, \<^verbatim>\<open>-+\<close> and
  \<^verbatim>\<open>(JAN|FEB|MAR|APR|MAY|JUN|JUL|AUG|SEP|OCT|NOV|DEC)([A-Z]?)(\d{1,4})\<close>
\<close>

definition keyword_pattern :: regex where
  "keyword_pattern = Seq [Grp 1 (Alt (Lit ''CLASS'') (Alt (Lit ''POLICY'') (Lit ''ACC''))), WordB]"

fun alternatives :: "string list \<Rightarrow> regex" where
  "alternatives [] = Lit []"
| "alternatives [w] = Lit w"
| "alternatives (w # ws) = Alt (Lit w) (alternatives ws)"

definition month_code_pattern :: regex where
  "month_code_pattern =
     Seq [Grp 1 (alternatives [''JAN'', ''FEB'', ''MAR'', ''APR'', ''MAY'', ''JUN'',
                               ''JUL'', ''AUG'', ''SEP'', ''OCT'', ''NOV'', ''DEC'']),
          Grp 2 (Maybe (In [upper_AZ])),
          Grp 3 (digits 1 4)]"

definition clean_endorsement_number :: "string \<Rightarrow> string" where
  "clean_endorsement_number raw =
     (if raw = [] then []
      else let r1 = upper raw;
               r2 = re_split_first keyword_pattern [] r1;
               r3 = re_sub (Plus (In [Space, Chars ''_''])) [] [] r2;
               r4 = re_sub (Plus (In [Chars ''-''])) [] ''-'' r3;
               r5 = replace ''RNOV'' ''NOV'' (replace ''TNO'' ''NOV'' (replace ''TNOV'' ''NOV'' r4))
           in case re_match month_code_pattern [] r5 of
                Some m \<Rightarrow> replace ''--'' ''-'' (group r5 m 1 @ ''-'' @ group r5 m 2 @ group r5 m 3)
              | None \<Rightarrow> r5)"

text \<open>\<^verbatim>\<open>ENO+R[S5]?\s*(?:N[O0Q])?[.:;]?\s*([A-Z0-9\-_ ]+)\<close>\<close>

definition endorsement_pattern :: regex where
  "endorsement_pattern =
     Seq [Lit ''EN'', Plus (In [Chars ''O'']), Lit ''R'', Maybe (In [Chars ''S5'']), ws_star,
          Opt (Seq [Lit ''N'', One (In [Chars ''O0Q''])]), Maybe (In [Chars ''.:;'']), ws_star,
          Grp 1 (Plus (In [upper_AZ, digit_09, Chars ''-_ '']))]"

definition extract_endorsement_number_dn :: "string \<Rightarrow> string" where
  "extract_endorsement_number_dn text =
     (let raw = (case re_search endorsement_pattern [IGNORECASE] text of
                   Some m \<Rightarrow> strip (group text m 1)
                 | None \<Rightarrow> [])
      in clean_endorsement_number raw)"

text \<open>
  \<^verbatim>\<open>(?:INSURED|CUSTOMER)\s+([A-Z ]{6,40})\<close> and \<^verbatim>\<open>\bFLAT\b|\bROOM\b|\bFLOOR\b\<close>,
  both without flags.
\<close>

definition insured_pattern :: regex where
  "insured_pattern =
     Seq [Alt (Lit ''INSURED'') (Lit ''CUSTOMER''), ws_plus,
          Grp 1 (Times (In [upper_AZ, Chars '' '']) 6 40)]"

definition whole_word :: "string \<Rightarrow> regex" where
  "whole_word w = Seq [WordB, Lit w, WordB]"

definition address_start_pattern :: regex where
  "address_start_pattern =
     Alt (whole_word ''FLAT'') (Alt (whole_word ''ROOM'') (whole_word ''FLOOR''))"

definition extract_insured_or_agent :: "string \<Rightarrow> string" where
  "extract_insured_or_agent text =
     (case re_search insured_pattern [] text of
        None \<Rightarrow> []
      | Some m \<Rightarrow>
          (let name = strip (group text m 1)
           in strip (re_split_first address_start_pattern [] name)))"

text \<open>\<^verbatim>\<open>CLAS[S]?\s*([0-9OQ]{2,3})[- ]*([A-Z ]+HELPER)\<close>\<close>

definition insurance_class_pattern :: regex where
  "insurance_class_pattern =
     Seq [Lit ''CLAS'', Maybe (In [Chars ''S'']), ws_star,
          Grp 1 (Times (In [digit_09, Chars ''OQ'']) 2 3),
          Star (In [Chars ''- '']),
          Grp 2 (Seq [Plus (In [upper_AZ, Chars '' '']), Lit ''HELPER''])]"

definition extract_insurance_class :: "string \<Rightarrow> string" where
  "extract_insurance_class text =
     (case re_search insurance_class_pattern [IGNORECASE] text of
        None \<Rightarrow> []
      | Some m \<Rightarrow>
          (let code = replace ''Q'' ''0'' (replace ''O'' ''0'' (group text m 1));
               cls1 = upper (group text m 2);
               cls2 = replace ''DQMESTIC'' ''DOMESTIC'' (replace ''OOMESTIC'' ''DOMESTIC'' cls1);
               cls3 = replace ''XELPER'' ''HELPER'' cls2
           in code @ '' '' @ cls3))"

subsection \<open>Financial extraction\<close>

text \<open>
  \<^verbatim>\<open>detect_copy_types\<close> returns a Python set, and \<^verbatim>\<open>extract_manager_financials\<close> makes
  one record for each of its elements, in the order in which Python enumerates the set.
  The language does not fix that order (for a set of texts it follows the hashes, which
  change from run to run). So the copy types are a set here, and the loop over them takes
  the enumeration as a parameter \<open>iter\<close>, of which \<open>enumerates iter S\<close> says all that is
  known: it lists the elements of \<open>S\<close>, each once. \<open>table_order\<close> is the enumeration in the
  order of the table of patterns, and \<^verbatim>\<open>extract_manager_financials\<close> with one argument is
  the function at that enumeration.
\<close>

definition copy_pattern :: "regex \<Rightarrow> regex" where
  "copy_pattern label =
     Seq [label, ws_star, Lit ''C'', One (In [Chars ''O0'']), Lit ''P'', One (In [Chars ''YV''])]"

definition copy_patterns :: "(string \<times> regex) list" where
  "copy_patterns =
     [(''manager'', copy_pattern (Seq [Lit ''MANAG'', One (In [Chars ''EA'']), Lit ''R''])),
      (''agent'', copy_pattern (Lit ''AGENT'')),
      (''account'', copy_pattern (Lit ''ACCOUNT'')),
      (''file'', copy_pattern (Lit ''FILE''))]"

definition detect_copy_types :: "string \<Rightarrow> string set" where
  "detect_copy_types text =
     set (map fst (filter (\<lambda>(key, pat). re_search pat [IGNORECASE] text \<noteq> None) copy_patterns))"


definition table_order :: "string set \<Rightarrow> string list" where
  "table_order S = filter (\<lambda>key. key \<in> S) (map fst copy_patterns)"

record financial =
  gross_premium :: pyfloat
  commission :: pyfloat
  overriding_insurer :: pyfloat
  cost :: pyfloat
  profit :: pyfloat
  category :: string

text \<open>\<^verbatim>\<open>GROSS\s+PREMIUM\<close> and \<^verbatim>\<open>\b\d{2,4}[., ]?\d{0,2}\b\<close>\<close>

definition gross_premium_pattern :: regex where
  "gross_premium_pattern = Seq [Lit ''GROSS'', ws_plus, Lit ''PREMIUM'']"

definition amount_token_pattern :: regex where
  "amount_token_pattern = Seq [WordB, digits 2 4, Maybe (In [Chars ''., '']), digits 0 2, WordB]"

text \<open>
  The loop over the tokens: spaces are removed and a comma becomes a point; a token that
  is no number is skipped (the \<^verbatim>\<open>except: pass\<close>), and so is a value that is not
  greater than 50.
\<close>

fun qualifying :: "string list \<Rightarrow> pyfloat list" where
  "qualifying [] = []"
| "qualifying (n # ns) =
     (case py_float (replace '','' ''.'' (replace '' '' [] n)) of
        Some v \<Rightarrow> if f_gt v (Fin 50) then v # qualifying ns else qualifying ns
      | None \<Rightarrow> qualifying ns)"

definition qualifying_values :: "string \<Rightarrow> pyfloat list" where
  "qualifying_values text = qualifying (findall amount_token_pattern [] text)"

definition extract_manager_financials_in ::
    "(string set \<Rightarrow> string list) \<Rightarrow> string \<Rightarrow> financial list" where
  "extract_manager_financials_in iter text =
     (if re_search gross_premium_pattern [IGNORECASE] text = None then []
      else let vals = qualifying_values text
           in if length vals < 5 then []
              else let k = length vals;
                       gross = vals ! (k - 5);
                       commission = vals ! (k - 4);
                       overriding = vals ! (k - 3);
                       cost = vals ! (k - 2);
                       profit = vals ! (k - 1);
                       found = detect_copy_types text;
                       copy_types = (if found = {} then {''manager''} else found)
                   in map (\<lambda>c. \<lparr>gross_premium = gross, commission = commission,
                                 overriding_insurer = overriding, cost = cost,
                                 profit = profit, category = c\<rparr>) (iter copy_types))"

definition extract_manager_financials :: "string \<Rightarrow> financial list" where
  "extract_manager_financials text = extract_manager_financials_in table_order text"

subsection \<open>The debit-note record\<close>

record debit_note =
  dn_account_number :: string
  dn_policy_number :: string
  dn_endorsement_number :: string
  dn_insured_or_agent :: string
  dn_issue_date :: string
  dn_insurance_class :: string
  dn_financials :: "financial list"

text \<open>\<^verbatim>\<open>DATE[:;]?\s*(\d{1,2}\s+\w+\s+\d{4})\<close>\<close>

definition issue_date_pattern_dn :: regex where
  "issue_date_pattern_dn =
     Seq [Lit ''DATE'', Maybe (In [Chars '':;'']), ws_star,
          Grp 1 (Seq [digits 1 2, ws_plus, Plus (In [Word]), ws_plus, digits 4 4])]"

text \<open>
  \<^verbatim>\<open>parse_debit_note_text\<close>. After the record is built the parser cleans the account
  number and the endorsement number a second time and repairs the class code; the record
  below holds the final values. The parser with two arguments is the one at the
  enumeration \<open>table_order\<close> of the copy types.
\<close>

definition parse_debit_note_text_in ::
    "(string set \<Rightarrow> string list) \<Rightarrow> string \<Rightarrow> string \<Rightarrow> debit_note" where
  "parse_debit_note_text_in iter raw_text insured_or_agent =
     (let text = normalize_text raw_text;
          insured = extract_insured_or_agent text
      in \<lparr>dn_account_number = clean_account_number (extract_account_number_dn text),
          dn_policy_number = extract_policy_number text,
          dn_endorsement_number = clean_endorsement_number (extract_endorsement_number_dn text),
          dn_insured_or_agent = (if insured = [] then insured_or_agent else insured),
          dn_issue_date = extract_first issue_date_pattern_dn text,
          dn_insurance_class =
            replace ''0o3'' ''003'' (replace ''O03'' ''003'' (replace ''0O3'' ''003''
              (extract_insurance_class text))),
          dn_financials = extract_manager_financials_in iter text\<rparr>)"

definition parse_debit_note_text :: "string \<Rightarrow> string \<Rightarrow> debit_note" where
  "parse_debit_note_text raw_text insured_or_agent =
     parse_debit_note_text_in table_order raw_text insured_or_agent"

section \<open>Errors\<close>

text \<open>
  The only exceptions that can leave a parser are the \<^verbatim>\<open>ValueError\<close> of a \<^verbatim>\<open>float(s)\<close>
  outside a \<^verbatim>\<open>try\<close> (kept with the text \<open>s\<close>) and the \<^verbatim>\<open>ValueError\<close> the dispatcher
  raises for a document type it does not know (kept with the type). A function that can
  raise returns \<open>Inl\<close> of the error, or \<open>Inr\<close> of its result.
\<close>

datatype py_error = FloatValueError string | UnsupportedDocumentType string

definition float_or_raise :: "string \<Rightarrow> py_error + pyfloat" where
  "float_or_raise s = (case py_float s of Some v \<Rightarrow> Inr v | None \<Rightarrow> Inl (FloatValueError s))"

section \<open>Account statements\<close>

definition TEXT_OCR_CORRECTIONS :: "(string \<times> string) list" where
  "TEXT_OCR_CORRECTIONS =
     [(''i1'', ''11''), (''Noyember'', ''November''), (''20z5'', ''2025''),
      (''EOWARD'', ''EDWARD''), (''LEYEL'', ''LEVEL''),
      (''MQNGKOK'', ''MONGKOK''), (''MONGKOX'', ''MONGKOK''),
      (''XQWLOON'', ''KOWLOON''), (''XOWI_OON_'', ''KOWLOON''),
      (''S2E'', ''SZE'')]"

definition NUMERIC_OCR_CORRECTIONS :: "(string \<times> string) list" where
  "NUMERIC_OCR_CORRECTIONS =
     [(''O'', ''0''), (''Q'', ''0''), (''l'', ''1''), (''I'', ''1''), (''7o'', ''70''), (''QQ'', ''00'')]"

definition apply_ocr_corrections :: "string \<Rightarrow> bool \<Rightarrow> string" where
  "apply_ocr_corrections text numeric_only =
     (let t = apply_replacements TEXT_OCR_CORRECTIONS text
      in if numeric_only then apply_replacements NUMERIC_OCR_CORRECTIONS t else t)"

subsection \<open>Dates\<close>

text \<open>
  \<^verbatim>\<open>datetime.strptime(s, '%d %B %Y')\<close> in the C locale. The library matches \<open>s\<close> from
  its start against the pattern below, ignoring case, and fails when the match does not
  reach the end of \<open>s\<close>, when the year is 0 or when the month has no such day.
  \<^verbatim>\<open>(?P<d>3[0-1]|[1-2]\d|0[1-9]|[1-9]| [1-9])\s+(?P<B>january|...|december)\s+(?P<Y>\d\d\d\d)\<close>
\<close>

record date =
  d_year :: int
  d_month :: int
  d_day :: int

definition month_names :: "string list" where
  "month_names = [''january'', ''february'', ''march'', ''april'', ''may'', ''june'', ''july'',
                  ''august'', ''september'', ''october'', ''november'', ''december'']"

definition day_pattern :: regex where
  "day_pattern =
     Alt (Seq [Lit ''3'', One (In [Range (CHR ''0'') (CHR ''1'')])])
    (Alt (Seq [One (In [Range (CHR ''1'') (CHR ''2'')]), One (In [Digit])])
    (Alt (Seq [Lit ''0'', One (In [Range (CHR ''1'') (CHR ''9'')])])
    (Alt (One (In [Range (CHR ''1'') (CHR ''9'')]))
         (Seq [Lit '' '', One (In [Range (CHR ''1'') (CHR ''9'')])]))))"

definition strptime_pattern :: regex where
  "strptime_pattern =
     Seq [Grp 1 day_pattern, ws_plus,
          Grp 2 (alternatives [''september'', ''february'', ''november'', ''december'', ''january'',
                               ''october'', ''august'', ''march'', ''april'', ''june'', ''july'', ''may'']),
          ws_plus, Grp 3 (digits 4 4)]"

definition leap_year :: "int \<Rightarrow> bool" where
  "leap_year y = (y mod 4 = 0 \<and> (y mod 100 \<noteq> 0 \<or> y mod 400 = 0))"

definition days_in_month :: "int \<Rightarrow> int \<Rightarrow> int" where
  "days_in_month y m =
     (if m = 2 then (if leap_year y then 29 else 28)
      else if m \<in> {4, 6, 9, 11} then 30 else 31)"

fun index_of :: "'a \<Rightarrow> 'a list \<Rightarrow> nat" where
  "index_of x [] = 0"
| "index_of x (y # ys) = (if x = y then 0 else Suc (index_of x ys))"

definition strptime :: "string \<Rightarrow> date option" where
  "strptime s =
     (case re_match strptime_pattern [IGNORECASE] s of
        None \<Rightarrow> None
      | Some m \<Rightarrow>
          if m_end m \<noteq> length s then None
          else let day = dec_val (strip (group s m 1));
                   month = int (index_of (map to_lower (group s m 2)) month_names) + 1;
                   year = dec_val (group s m 3)
               in if year < 1 \<or> day < 1 \<or> days_in_month year month < day then None
                  else Some \<lparr>d_year = year, d_month = month, d_day = day\<rparr>)"

text \<open>
  \<^verbatim>\<open>d.strftime('%Y-%m-%d')\<close>: month and day have two digits. The year is printed by the
  C library; glibc, as on the Linux that runs this program, prints a year below 1000
  without leading zeros.
\<close>

definition digit_char :: "int \<Rightarrow> char" where
  "digit_char n = ''0123456789'' ! nat (n mod 10)"

function show_int :: "int \<Rightarrow> string" where
  "show_int n = (if n < 10 then [digit_char n] else show_int (n div 10) @ [digit_char n])"
  by pat_completeness auto
termination
  by (relation "measure nat") auto

definition two_digits :: "int \<Rightarrow> string" where
  "two_digits n = [digit_char (n div 10), digit_char n]"

definition strftime :: "date \<Rightarrow> string" where
  "strftime d = show_int (d_year d) @ ''-'' @ two_digits (d_month d) @ ''-'' @ two_digits (d_day d)"

text \<open>
  \<^verbatim>\<open>Issued Date\s*[:]?\s*.*?(\d{1,2}\s+[A-Za-z]+\s+\d{4})\<close>; the class of the source also
  has the full-width colon, a code point above 255.
\<close>

definition date_text_pattern :: regex where
  "date_text_pattern = Seq [digits 1 2, ws_plus, Plus (In [upper_AZ, lower_az]), ws_plus, digits 4 4]"

definition issued_date_pattern :: regex where
  "issued_date_pattern =
     Seq [Lit ''Issued Date'', ws_star, Maybe (In [Chars '':'']), ws_star, LazyStar AnyChar,
          Grp 1 date_text_pattern]"

definition extract_issue_date :: "string \<Rightarrow> string" where
  "extract_issue_date text0 =
     (let text = apply_ocr_corrections text0 False
      in case re_search issued_date_pattern [IGNORECASE] text of
           None \<Rightarrow> []
         | Some m \<Rightarrow> (case strptime (group text m 1) of Some d \<Rightarrow> strftime d | None \<Rightarrow> []))"

text \<open>
  The loop of \<^verbatim>\<open>extract_premium_due_date\<close> over the lines, with the line before the
  current one; it returns at the first line that holds \<^verbatim>\<open>PREMIUM DUE DATE\<close> and whose
  predecessor is a date, as it stands or after the corrections.
\<close>

fun due_date_scan :: "string option \<Rightarrow> string list \<Rightarrow> string option" where
  "due_date_scan prev [] = None"
| "due_date_scan prev (line # rest) =
     (case prev of
        None \<Rightarrow> due_date_scan (Some line) rest
      | Some p \<Rightarrow>
          if contains ''PREMIUM DUE DATE'' (upper line) then
            (let date_line = strip p
             in case strptime date_line of
                  Some d \<Rightarrow> Some (strftime d)
                | None \<Rightarrow>
                    (case strptime (apply_ocr_corrections date_line False) of
                       Some d \<Rightarrow> Some (strftime d)
                     | None \<Rightarrow> due_date_scan (Some line) rest))
          else due_date_scan (Some line) rest)"

definition extract_premium_due_date :: "string \<Rightarrow> string" where
  "extract_premium_due_date text0 =
     (let text = apply_ocr_corrections text0 False
      in case due_date_scan None (splitlines text) of
           Some d \<Rightarrow> d
         | None \<Rightarrow> extract_issue_date text)"

subsection \<open>Address and account number\<close>

fun address_scan :: "bool \<Rightarrow> string list \<Rightarrow> string list" where
  "address_scan capture [] = []"
| "address_scan capture (line0 # rest) =
     (let line = strip line0
      in if line = [] then address_scan capture rest
         else if re_match date_text_pattern [] line \<noteq> None then address_scan True rest
         else if contains ''EFFECTIVE DATE'' line then []
         else if capture then line # address_scan capture rest
         else address_scan capture rest)"

definition extract_address :: "string \<Rightarrow> string" where
  "extract_address text = join '' '' (address_scan False (splitlines text))"

text \<open>\<^verbatim>\<open>ACCOUNT NUMBER\s*[:]?\s*([A-Z0-9]+)\<close>\<close>

definition account_number_pattern_as :: regex where
  "account_number_pattern_as =
     Seq [Lit ''ACCOUNT NUMBER'', ws_star, Maybe (In [Chars '':'']), ws_star,
          Grp 1 (Plus (In [upper_AZ, digit_09]))]"

definition extract_account_number :: "string \<Rightarrow> string" where
  "extract_account_number text0 =
     (let text = apply_ocr_corrections text0 False
      in case re_search account_number_pattern_as [IGNORECASE] text of
           Some m \<Rightarrow> group text m 1
         | None \<Rightarrow> ''N/A'')"

subsection \<open>Numbers\<close>

definition clean_global_ocr :: "string \<Rightarrow> string" where
  "clean_global_ocr text =
     apply_replacements
       [(''T,'', ''TJ''), (''Tj'', ''TJ''), (''t,'', ''TJ''), (''T.'', ''TJ''),
        (''PFF25o'', ''PFF250''), (''Ro'', ''R0''), (''Q'', ''0'')] text"

text \<open>\<^verbatim>\<open>^(\d)\s+(\d{3})\s+(\d{2})$\<close>\<close>

definition spaced_pattern :: regex where
  "spaced_pattern =
     Seq [Bol, Grp 1 (digits 1 1), ws_plus, Grp 2 (digits 3 3), ws_plus, Grp 3 (digits 2 2), Eol]"

text \<open>
  \<^verbatim>\<open>clean_number\<close>. The \<^verbatim>\<open>float\<close> of the spaced form stands outside the \<^verbatim>\<open>try\<close>; the
  one at the end is inside it and a failure there gives 0.
\<close>

definition clean_number :: "string \<Rightarrow> py_error + pyfloat" where
  "clean_number raw0 =
     (if raw0 = [] then Inr (Fin 0)
      else let raw = strip raw0
           in case re_match spaced_pattern [] raw of
                Some m \<Rightarrow> float_or_raise (group raw m 1 @ group raw m 2 @ ''.'' @ group raw m 3)
              | None \<Rightarrow>
                  (let s1 = replace ''l'' ''1'' (replace ''O'' ''0'' (replace ''Q'' ''0'' raw));
                       s2 = re_sub ws_plus [] [] s1;
                       s3 = replace '','' [] s2;
                       s4 = re_sub (One (NotIn [digit_09, Chars ''.''])) [] [] s3
                   in Inr (case py_float s4 of Some v \<Rightarrow> v | None \<Rightarrow> Fin 0)))"

subsection \<open>Policy and nature pairs\<close>

record pair =
  p_policy_number :: string
  p_nature :: pyfloat

text \<open>\<^verbatim>\<open>([A-Za-z0-9,\-]+)\s+([\dOQol.,]+)\)\<close>\<close>

definition pair_pattern :: regex where
  "pair_pattern =
     Seq [Grp 1 (Plus (In [upper_AZ, lower_az, digit_09, Chars '',-''])), ws_plus,
          Grp 2 (Plus (In [Digit, Chars ''OQol.,''])), Lit '')'']"

definition pair_of_match :: "string \<Rightarrow> rmatch \<Rightarrow> pair" where
  "pair_of_match s m =
     (let policy_raw = group s m 1;
          nature_raw = group s m 2;
          policy = replace ''l'' ''1'' (replace ''O'' ''0'' (replace ''o'' ''0''
                     (replace '','' [] (replace '' '' [] policy_raw))));
          nature = replace '','' [] (replace ''l'' ''1'' (replace ''o'' ''0''
                     (replace ''Q'' ''0'' (replace ''O'' ''0'' nature_raw))))
      in \<lparr>p_policy_number = policy,
          p_nature = (case py_float nature of Some v \<Rightarrow> v | None \<Rightarrow> Fin 0)\<rparr>)"

definition extract_policy_nature_pairs :: "string \<Rightarrow> pair list" where
  "extract_policy_nature_pairs big_row_text =
     map (pair_of_match big_row_text) (finditer pair_pattern [IGNORECASE] big_row_text)"

subsection \<open>Date, debit note and premium\<close>

text \<open>\<^verbatim>\<open>^\d{2}/\d{2}/\d{4}$\<close>, \<^verbatim>\<open>^B[\w\-?]+$\<close> and \<^verbatim>\<open>\d\<close>\<close>

definition slash_date :: regex where
  "slash_date = Seq [digits 2 2, Lit ''/'', digits 2 2, Lit ''/'', digits 4 4]"

definition debit_ref :: regex where
  "debit_ref = Seq [Lit ''B'', Plus (In [Word, Chars ''-?''])]"

definition is_date_line :: "string \<Rightarrow> bool" where
  "is_date_line line = (re_match (Seq [Bol, slash_date, Eol]) [] line \<noteq> None)"

definition is_debit_line :: "string \<Rightarrow> bool" where
  "is_debit_line line = (re_match (Seq [Bol, debit_ref, Eol]) [IGNORECASE] line \<noteq> None)"

definition has_digit :: "string \<Rightarrow> bool" where
  "has_digit line = (re_search (One (In [Digit])) [] line \<noteq> None)"

text \<open>The lines of a text, stripped, without the empty ones.\<close>

definition nonempty_lines :: "string \<Rightarrow> string list" where
  "nonempty_lines text = filter (\<lambda>l. l \<noteq> []) (map strip (splitlines text))"

fun header_scan :: "string option \<Rightarrow> string list \<Rightarrow> py_error + pyfloat" where
  "header_scan prev [] = Inr (Fin 0)"
| "header_scan prev (line # rest) =
     (if is_date_line line then
        (case prev of
           Some prev_line \<Rightarrow> if has_digit prev_line then clean_number prev_line else Inr (Fin 0)
         | None \<Rightarrow> Inr (Fin 0))
      else header_scan (Some line) rest)"

definition extract_header_premium_from_block :: "string \<Rightarrow> py_error + pyfloat" where
  "extract_header_premium_from_block text = header_scan None (nonempty_lines text)"

record triple =
  t_effective_date :: string
  t_debit_note :: "string option"
  t_premium :: pyfloat

text \<open>
  \<^verbatim>\<open>EFFECTIVE\s+DATE\s+DEBIT\s+NOTE\s+NO\.\s*(\d{2}/\d{2}/\d{4})\s+(B[\w\-?]+)\<close>
\<close>

definition header_pattern :: regex where
  "header_pattern =
     Seq [Lit ''EFFECTIVE'', ws_plus, Lit ''DATE'', ws_plus, Lit ''DEBIT'', ws_plus, Lit ''NOTE'',
          ws_plus, Lit ''NO.'', ws_star, Grp 1 slash_date, ws_plus, Grp 2 debit_ref]"

definition extract_header_entry :: "string \<Rightarrow> py_error + triple option" where
  "extract_header_entry text =
     (case re_search header_pattern [IGNORECASE] text of
        None \<Rightarrow> Inr None
      | Some m \<Rightarrow>
          (case extract_header_premium_from_block text of
             Inl e \<Rightarrow> Inl e
           | Inr p \<Rightarrow> Inr (Some \<lparr>t_effective_date = group text m 1,
                                  t_debit_note = Some (group text m 2),
                                  t_premium = p\<rparr>)))"

text \<open>
  The \<^verbatim>\<open>while\<close> loop of \<^verbatim>\<open>extract_date_debit_premium\<close> with its index \<open>i\<close>: at a date
  line, the next line is taken as the debit note when it looks like one, and the line
  after as the premium when it is no date, no debit note and holds a digit.
\<close>

function ddp_loop :: "string list \<Rightarrow> nat \<Rightarrow> triple list \<Rightarrow> py_error + triple list" where
  "ddp_loop lines i entries =
     (if i < length lines then
        (let line = lines ! i
         in if is_date_line line then
              (let has_debit = (i + 1 < length lines \<and> is_debit_line (lines ! (i + 1)));
                   debit = (if has_debit then Some (lines ! (i + 1)) else None);
                   i1 = (if has_debit then i + 1 else i);
                   has_premium = (i1 + 1 < length lines
                                  \<and> \<not> is_date_line (lines ! (i1 + 1))
                                  \<and> \<not> is_debit_line (lines ! (i1 + 1))
                                  \<and> has_digit (lines ! (i1 + 1)));
                   i2 = (if has_premium then i1 + 1 else i1)
               in case (if has_premium then clean_number (lines ! (i1 + 1)) else Inr (Fin 0)) of
                    Inl e \<Rightarrow> Inl e
                  | Inr p \<Rightarrow>
                      ddp_loop lines (i2 + 1)
                        (entries @ [\<lparr>t_effective_date = line, t_debit_note = debit, t_premium = p\<rparr>]))
            else ddp_loop lines (i + 1) entries)
      else Inr entries)"
  by pat_completeness auto
termination
  by (relation "measure (\<lambda>(lines, i, entries). length lines - i)") (auto split: if_splits)

definition extract_date_debit_premium :: "string \<Rightarrow> py_error + triple list" where
  "extract_date_debit_premium text = ddp_loop (nonempty_lines text) 0 []"

subsection \<open>Entries\<close>

record entry =
  e_effective_date :: string
  e_debit_note :: "string option"
  e_policy_number :: "string option"
  e_nature :: "pyfloat option"
  e_premium :: pyfloat

text \<open>\<^verbatim>\<open>PREM[1I]UM\s*(.*?)(?:T[O0]TAL)\s+HXS\<close>\<close>

definition big_row_pattern :: regex where
  "big_row_pattern =
     Seq [Lit ''PREM'', One (In [Chars ''1I'']), Lit ''UM'', ws_star, Grp 1 (LazyStar AnyChar),
          Seq [Lit ''T'', One (In [Chars ''O0'']), Lit ''TAL''], ws_plus, Lit ''HXS'']"

text \<open>The loop that aligns the two sequences by index.\<close>

definition align_entry :: "pair list \<Rightarrow> triple list \<Rightarrow> nat \<Rightarrow> entry" where
  "align_entry policy_nature_pairs structured_entries i =
     (let policy = (if i < length policy_nature_pairs
                    then Some (p_policy_number (policy_nature_pairs ! i)) else None);
          nature = (if i < length policy_nature_pairs
                    then Some (p_nature (policy_nature_pairs ! i)) else None)
      in \<lparr>e_effective_date = t_effective_date (structured_entries ! i),
          e_debit_note = t_debit_note (structured_entries ! i),
          e_policy_number = policy,
          e_nature = nature,
          e_premium = t_premium (structured_entries ! i)\<rparr>)"

definition align :: "pair list \<Rightarrow> triple list \<Rightarrow> entry list" where
  "align policy_nature_pairs structured_entries =
     map (align_entry policy_nature_pairs structured_entries) [0..<length structured_entries]"

definition policy_nature_pairs_of :: "string \<Rightarrow> pair list" where
  "policy_nature_pairs_of text =
     (case re_search big_row_pattern [DOTALL, IGNORECASE] text of
        Some m \<Rightarrow> extract_policy_nature_pairs (group text m 1)
      | None \<Rightarrow> [])"

definition structured_entries_of :: "string \<Rightarrow> py_error + triple list" where
  "structured_entries_of text =
     (case extract_header_entry text of
        Inl e \<Rightarrow> Inl e
      | Inr header_entry \<Rightarrow>
          (case extract_date_debit_premium text of
             Inl e \<Rightarrow> Inl e
           | Inr rest \<Rightarrow> Inr ((case header_entry of Some h \<Rightarrow> [h] | None \<Rightarrow> []) @ rest)))"

definition parse_entries :: "string \<Rightarrow> py_error + entry list" where
  "parse_entries normalized_text =
     (let text = clean_global_ocr normalized_text;
          policy_nature_pairs = policy_nature_pairs_of text
      in case structured_entries_of text of
           Inl e \<Rightarrow> Inl e
         | Inr structured_entries \<Rightarrow> Inr (align policy_nature_pairs structured_entries))"

record account_statement =
  as_issue_date :: string
  as_premium_due_date :: string
  as_account_number :: string
  as_address :: string
  as_total_premium_due :: pyfloat
  as_entries :: "entry list"
  as_warnings :: "string list"

definition missing_policy :: "entry \<Rightarrow> bool" where
  "missing_policy e = (case e_policy_number e of None \<Rightarrow> True | Some p \<Rightarrow> p = [])"

text \<open>
  \<^verbatim>\<open>parse_account_statement_text\<close>. The total of an empty list is the integer 0, which
  Python compares equal to 0.0; it is \<open>Fin 0\<close> here.
\<close>

definition parse_account_statement_text :: "string \<Rightarrow> string \<Rightarrow> py_error + account_statement" where
  "parse_account_statement_text raw_text insured_or_agent =
     (let text = apply_ocr_corrections raw_text False;
          issue_date = extract_issue_date text;
          premium_due_date = extract_premium_due_date text;
          account_number = extract_account_number text;
          address = extract_address text
      in case parse_entries text of
           Inl e \<Rightarrow> Inl e
         | Inr entries \<Rightarrow>
             (let total1 = round2 (f_sum (map e_premium entries));
                  total = (if total1 = Fin 0 then round2 (f_sum (map e_premium entries)) else total1);
                  warnings = (if list_ex missing_policy entries
                              then [''Some policy numbers missing or unreliable.''] else [])
              in Inr \<lparr>as_issue_date = issue_date,
                      as_premium_due_date = premium_due_date,
                      as_account_number = account_number,
                      as_address = address,
                      as_total_premium_due = total,
                      as_entries = entries,
                      as_warnings = warnings\<rparr>))"

section \<open>Renewal notices\<close>

text \<open>
  \<^verbatim>\<open>normalize_ocr_text\<close>: the lines are stripped, the empty ones dropped, and the runs
  of white space inside a line become one space.
\<close>

definition normalize_ocr_text :: "string \<Rightarrow> string" where
  "normalize_ocr_text raw_text =
     (if raw_text = [] then []
      else let text = replace [CHR 0x0D] [CHR 0x0A] raw_text;
               lines1 = map strip (split_on (CHR 0x0A) text);
               lines2 = filter (\<lambda>line. line \<noteq> []) lines1;
               lines3 = map (\<lambda>line. join '' '' (split_ws line)) lines2
           in join [CHR 0x0A] lines3)"

text \<open>
  \<^verbatim>\<open>extract_first(pattern, text, flags)\<close> of the renewal parser: the first group when
  the pattern has one (\<^verbatim>\<open>match.lastindex\<close>), the whole match otherwise, stripped.
\<close>

definition extract_first_r :: "regex \<Rightarrow> string \<Rightarrow> flag list \<Rightarrow> string" where
  "extract_first_r pattern text flags =
     (case re_search pattern flags text of
        None \<Rightarrow> []
      | Some m \<Rightarrow>
          (case m_caps m 1 of
             Some found \<Rightarrow> strip (group text m 1)
           | None \<Rightarrow> strip (group0 text m)))"

text \<open>\<^verbatim>\<open>{label}.*?(\d{2}/\d{2}/\d{4})\<close>, for a label without special characters.\<close>

definition extract_date_after :: "string \<Rightarrow> string \<Rightarrow> string" where
  "extract_date_after label text =
     extract_first_r (Seq [Lit label, LazyStar AnyChar, Grp 1 slash_date]) text [IGNORECASE, DOTALL]"

text \<open>\<^verbatim>\<open>POLICY\s*NO\.?\s*[:\-]?\s*([A-Z0-9\-]+)\<close>\<close>

definition policy_number_pattern_r :: regex where
  "policy_number_pattern_r =
     Seq [Lit ''POLICY'', ws_star, Lit ''NO'', Maybe (In [Chars ''.'']), ws_star,
          Maybe (In [Chars '':-'']), ws_star, Grp 1 (Plus (In [upper_AZ, digit_09, Chars ''-'']))]"

definition extract_policy_number_r :: "string \<Rightarrow> string" where
  "extract_policy_number_r text =
     (case re_search policy_number_pattern_r [IGNORECASE] text of
        None \<Rightarrow> []
      | Some m \<Rightarrow> strip (replace '' '' [] (group text m 1)))"

text \<open>\<^verbatim>\<open>ACICODE\s+([A-Z0-9]+)\<close>\<close>

definition extract_ac_code :: "string \<Rightarrow> string" where
  "extract_ac_code text =
     extract_first_r (Seq [Lit ''ACICODE'', ws_plus, Grp 1 (Plus (In [upper_AZ, digit_09]))])
       text [IGNORECASE]"

text \<open>
  \<^verbatim>\<open>\bINSURED\b\<close>, \<^verbatim>\<open>\bPOLICY\s*NO\<close>, \<^verbatim>\<open>CLASS\s+OF\s+INSURANCE\<close> and
  \<^verbatim>\<open>\bROOM\b|\bBLOCK\b|\bFLAT\b|\bUNIT\b\<close>
\<close>

definition extract_insured_name :: "string \<Rightarrow> string" where
  "extract_insured_name text =
     (case re_search (whole_word ''INSURED'') [IGNORECASE] text of
        None \<Rightarrow> []
      | Some start_m \<Rightarrow>
          (case re_search (Seq [WordB, Lit ''POLICY'', ws_star, Lit ''NO'']) [IGNORECASE] text of
             None \<Rightarrow> []
           | Some end_m \<Rightarrow>
               (let segment = slice text (m_end start_m) (m_start end_m);
                    segment1 = re_sub (Seq [Lit ''CLASS'', ws_plus, Lit ''OF'', ws_plus, Lit ''INSURANCE''])
                                 [IGNORECASE] [] segment;
                    segment2 = re_split_first
                                 (Alt (whole_word ''ROOM'') (Alt (whole_word ''BLOCK'')
                                    (Alt (whole_word ''FLAT'') (whole_word ''UNIT''))))
                                 [IGNORECASE] segment1
                in strip (strip_chars '' {'' segment2))))"

text \<open>\<^verbatim>\<open>\bBUSINESS\s+INSURANCE\b\<close>\<close>

definition extract_insurance_class_r :: "string \<Rightarrow> string" where
  "extract_insurance_class_r text =
     extract_first_r (Seq [WordB, Lit ''BUSINESS'', ws_plus, Lit ''INSURANCE'', WordB]) text [IGNORECASE]"

subsection \<open>Money\<close>

text \<open>
  \<^verbatim>\<open>clean_money\<close>: \<^verbatim>\<open>[^\d\s,]\<close> is deleted, and the runs \<^verbatim>\<open>\d+\<close> that remain are
  joined and converted.
\<close>

definition clean_money :: "string \<Rightarrow> py_error + pyfloat" where
  "clean_money raw0 =
     (if raw0 = [] then Inr (Fin 0)
      else let raw = re_sub (One (NotIn [Digit, Space, Chars '',''])) [] [] raw0;
               digit_runs = findall (Plus (In [Digit])) [] raw
           in if digit_runs = [] then Inr (Fin 0)
              else float_or_raise (concat digit_runs))"

text \<open>\<^verbatim>\<open>TOTAL.*?\n(.*)\<close> and \<^verbatim>\<open>RENEWAL\s+PREMIUM.*?(\d[\d\s,]+)\<close>\<close>

definition extract_total_earning :: "string \<Rightarrow> py_error + pyfloat" where
  "extract_total_earning text =
     (case re_search (Seq [Lit ''TOTAL'', LazyStar AnyChar, Lit [CHR 0x0A], Grp 1 (Star AnyChar)])
             [IGNORECASE] text of
        None \<Rightarrow> Inr (Fin 0)
      | Some m \<Rightarrow> clean_money (group text m 1))"

definition extract_renewal_premium :: "string \<Rightarrow> py_error + pyfloat" where
  "extract_renewal_premium text =
     (case re_search (Seq [Lit ''RENEWAL'', ws_plus, Lit ''PREMIUM'', LazyStar AnyChar,
                           Grp 1 (Seq [One (In [Digit]), Plus (In [Digit, Space, Chars '',''])])])
             [IGNORECASE, DOTALL] text of
        Some m \<Rightarrow> clean_money (group text m 1)
      | None \<Rightarrow> Inr (Fin 0))"

subsection \<open>Renewal entries\<close>

definition fix_ocr_numbers :: "string \<Rightarrow> string" where
  "fix_ocr_numbers line =
     apply_replacements
       [(''Q'', ''0''), (''o'', ''0''), (''O'', ''0''), (''z'', ''2''), (''Z'', ''2''),
        (''l'', ''1''), (''|'', ''1''), (''I'', ''1'')] line"

record renewal_entry =
  r_label :: string
  r_amount :: pyfloat

text \<open>
  \<^verbatim>\<open>[\d,]+\.\d+|[\d,]+\<close>. The numbers of an amount line are converted outside any
  \<^verbatim>\<open>try\<close>: the first text that is no number raises.
\<close>

definition number_pattern :: regex where
  "number_pattern =
     Alt (Seq [Plus (In [Digit, Chars '','']), Lit ''.'', Plus (In [Digit])])
         (Plus (In [Digit, Chars '','']))"

fun floats_of :: "string list \<Rightarrow> py_error + pyfloat list" where
  "floats_of [] = Inr []"
| "floats_of (s # ss) =
     (case float_or_raise s of
        Inl e \<Rightarrow> Inl e
      | Inr v \<Rightarrow> (case floats_of ss of Inl e \<Rightarrow> Inl e | Inr vs \<Rightarrow> Inr (v # vs)))"

definition num_strs_of :: "string \<Rightarrow> string list" where
  "num_strs_of line = findall number_pattern [] (fix_ocr_numbers line)"

definition amount_of_line :: "string \<Rightarrow> py_error + pyfloat" where
  "amount_of_line line =
     (let num_strs = num_strs_of line
      in if num_strs \<noteq> [] then
           (case floats_of (map (replace '','' []) num_strs) of
              Inl e \<Rightarrow> Inl e
            | Inr nums \<Rightarrow> Inr (f_max (hd nums) (tl nums)))
         else Inr (Fin 0))"

fun amounts_of :: "string list \<Rightarrow> py_error + pyfloat list" where
  "amounts_of [] = Inr []"
| "amounts_of (line # rest) =
     (case amount_of_line line of
        Inl e \<Rightarrow> Inl e
      | Inr a \<Rightarrow> (case amounts_of rest of Inl e \<Rightarrow> Inl e | Inr as \<Rightarrow> Inr (a # as)))"

text \<open>
  \<^verbatim>\<open>EMPLOYEES.*?(?=TOTAL)\<close>, \<^verbatim>\<open>[^A-Za-z0-9\s\-/\(\)]\<close> and \<^verbatim>\<open>\s(?=\d[\.\-]?)\<close>
\<close>

definition block_pattern :: regex where
  "block_pattern = Seq [Lit ''EMPLOYEES'', LazyStar AnyChar, Ahead (Lit ''TOTAL'')]"

definition label_noise :: regex where
  "label_noise = One (NotIn [upper_AZ, lower_az, digit_09, Space, Chars ''-/()''])"

definition label_split_pattern :: regex where
  "label_split_pattern =
     Seq [One (In [Space]), Ahead (Seq [One (In [Digit]), Maybe (In [Chars ''.-''])])]"

definition block_lines :: "string \<Rightarrow> string list" where
  "block_lines block = filter (\<lambda>l. l \<noteq> []) (map strip (split_on (CHR 0x0A) block))"

definition labels_of :: "string list \<Rightarrow> string list" where
  "labels_of lines =
     (let labels_line = (if 1 < length lines then lines ! 1 else []);
          labels_line_clean = re_sub label_noise [] [] labels_line;
          labels = re_split label_split_pattern [] labels_line_clean
      in filter (\<lambda>l. l \<noteq> []) (map strip labels))"

text \<open>The last loop: label \<open>i\<close> gets amount \<open>i\<close>, or 0 when there is none.\<close>

definition entry_at :: "pyfloat list \<Rightarrow> nat \<Rightarrow> string \<Rightarrow> renewal_entry" where
  "entry_at amounts i label =
     \<lparr>r_label = label, r_amount = (if i < length amounts then amounts ! i else Fin 0)\<rparr>"

definition zip_entries :: "string list \<Rightarrow> pyfloat list \<Rightarrow> renewal_entry list" where
  "zip_entries labels amounts = map (\<lambda>(i, label). entry_at amounts i label) (enumerate 0 labels)"

definition renewal_block :: "string \<Rightarrow> string option" where
  "renewal_block text = map_option (group0 text) (re_search block_pattern [IGNORECASE, DOTALL] text)"

definition extract_renewal_entries :: "string \<Rightarrow> py_error + renewal_entry list" where
  "extract_renewal_entries text =
     (case renewal_block text of
        None \<Rightarrow> Inr []
      | Some block \<Rightarrow>
          (let lines = block_lines block;
               labels = labels_of lines;
               amount_lines = drop 2 lines
           in case amounts_of amount_lines of
                Inl e \<Rightarrow> Inl e
              | Inr amounts \<Rightarrow> Inr (zip_entries labels amounts)))"

record renewal_notice =
  rn_issue_date :: string
  rn_insured :: string
  rn_insurance_class :: string
  rn_policy_number :: string
  rn_expiry_date :: string
  rn_ac_code :: string
  rn_renewal_entries :: "renewal_entry list"
  rn_total_earning :: pyfloat
  rn_renewal_premium :: pyfloat
  rn_uploaded_by :: string

definition parse_renewal_notice_text :: "string \<Rightarrow> string \<Rightarrow> py_error + renewal_notice" where
  "parse_renewal_notice_text raw_text insured_or_agent =
     (let text = normalize_ocr_text raw_text;
          issue_date = extract_date_after ''ISSUE DATE'' text;
          expiry_date = extract_date_after ''EXPIRY DATE'' text;
          insured = extract_insured_name text;
          insurance_class = extract_insurance_class_r text;
          policy_number = extract_policy_number_r text;
          ac_code = extract_ac_code text
      in case extract_renewal_entries text of
           Inl e \<Rightarrow> Inl e
         | Inr renewal_entries \<Rightarrow>
             (case extract_total_earning text of
                Inl e \<Rightarrow> Inl e
              | Inr total_earning \<Rightarrow>
                  (case extract_renewal_premium text of
                     Inl e \<Rightarrow> Inl e
                   | Inr renewal_premium \<Rightarrow>
                       Inr \<lparr>rn_issue_date = issue_date,
                            rn_insured = insured,
                            rn_insurance_class = insurance_class,
                            rn_policy_number = policy_number,
                            rn_expiry_date = expiry_date,
                            rn_ac_code = ac_code,
                            rn_renewal_entries = renewal_entries,
                            rn_total_earning = total_earning,
                            rn_renewal_premium = renewal_premium,
                            rn_uploaded_by = insured_or_agent\<rparr>)))"

section \<open>The dispatcher\<close>

datatype parsed_document =
    DebitNote debit_note
  | AccountStatement account_statement
  | RenewalNotice renewal_notice

definition parse_document :: "string \<Rightarrow> string \<Rightarrow> py_error + parsed_document" where
  "parse_document raw_text doc_type =
     (if doc_type = ''debit_note'' then Inr (DebitNote (parse_debit_note_text raw_text []))
      else if doc_type = ''account_statement'' then
        map_sum id AccountStatement (parse_account_statement_text raw_text [])
      else if doc_type = ''renewal_notice'' then
        map_sum id RenewalNotice (parse_renewal_notice_text raw_text [])
      else Inl (UnsupportedDocumentType doc_type))"

section \<open>What a match tells\<close>

text \<open>
  Predicates for the proofs. \<open>shape fl r x\<close> holds when the text \<open>x\<close> has the form of
  \<open>r\<close>, leaving aside what \<open>r\<close> asks of the text around \<open>x\<close>; \<open>grp_shape fl r n x\<close>
  holds when \<open>x\<close> has the form of a group numbered \<open>n\<close> in \<open>r\<close>; and \<open>sets_group r n\<close>
  holds when every match of \<open>r\<close> sets group \<open>n\<close>.
\<close>

fun shape :: "flag list \<Rightarrow> regex \<Rightarrow> string \<Rightarrow> bool" where
  "shape fl (Lit w) x = (length x = length w \<and> lit_at fl w x)"
| "shape fl (Rep a m n g) x =
     (m \<le> length x \<and> (case n of None \<Rightarrow> True | Some b \<Rightarrow> length x \<le> b) \<and> list_all (amatch fl a) x)"
| "shape fl (Cat r1 r2) x =
     list_ex (\<lambda>k. shape fl r1 (take k x) \<and> shape fl r2 (drop k x)) [0..<Suc (length x)]"
| "shape fl (Alt r1 r2) x = (shape fl r1 x \<or> shape fl r2 x)"
| "shape fl (Grp n r) x = shape fl r x"
| "shape fl (Opt r) x = (x = [] \<or> shape fl r x)"
| "shape fl (Ahead r) x = (x = [])"
| "shape fl WordB x = (x = [])"
| "shape fl Bol x = (x = [])"
| "shape fl Eol x = (x = [])"
| "shape fl EndZ x = (x = [])"

fun grp_shape :: "flag list \<Rightarrow> regex \<Rightarrow> nat \<Rightarrow> string \<Rightarrow> bool" where
  "grp_shape fl (Grp m r) n x = ((m = n \<and> shape fl r x) \<or> grp_shape fl r n x)"
| "grp_shape fl (Cat r1 r2) n x = (grp_shape fl r1 n x \<or> grp_shape fl r2 n x)"
| "grp_shape fl (Alt r1 r2) n x = (grp_shape fl r1 n x \<or> grp_shape fl r2 n x)"
| "grp_shape fl (Opt r) n x = grp_shape fl r n x"
| "grp_shape fl (Ahead r) n x = grp_shape fl r n x"
| "grp_shape fl r n x = False"

fun sets_group :: "regex \<Rightarrow> nat \<Rightarrow> bool" where
  "sets_group (Grp m r) n = (m = n \<or> sets_group r n)"
| "sets_group (Cat r1 r2) n = (sets_group r1 n \<or> sets_group r2 n)"
| "sets_group (Alt r1 r2) n = (sets_group r1 n \<and> sets_group r2 n)"
| "sets_group (Ahead r) n = sets_group r n"
| "sets_group r n = False"

text \<open>\<open>is_max_of a nums\<close>: \<open>a\<close> is one of \<open>nums\<close> and none of them is greater.\<close>

definition is_max_of :: "pyfloat \<Rightarrow> pyfloat list \<Rightarrow> bool" where
  "is_max_of a nums = (a \<in> set nums \<and> list_all (\<lambda>v. \<not> f_gt v a) nums)"

definition cap_ok :: "flag list \<Rightarrow> regex \<Rightarrow> string \<Rightarrow> nat \<Rightarrow> (nat \<times> nat) option \<Rightarrow> bool" where
  "cap_ok fl r s n v = (\<exists>a b. v = Some (a, b) \<and> grp_shape fl r n (slice s a b))"

definition caps_ext :: "flag list \<Rightarrow> regex \<Rightarrow> string \<Rightarrow> caps \<Rightarrow> caps \<Rightarrow> bool" where
  "caps_ext fl r s c c' =
     (\<forall>n. (c' n = c n \<or> cap_ok fl r s n (c' n)) \<and> (sets_group r n \<longrightarrow> cap_ok fl r s n (c' n)))"

section \<open>Properties\<close>

subsection \<open>Replacement\<close>

lemma replace_from_absent:
  "\<not> contains old s \<Longrightarrow> replace_from old new s = s"
  by (induction s) auto

lemma replace_absent:
  "\<not> contains old s \<Longrightarrow> replace old new s = s"
proof -
  assume a: "\<not> contains old s"
  have "old \<noteq> []"
  proof
    assume "old = []"
    then have "contains old s" by (cases s) auto
    with a show False by simp
  qed
  with a show ?thesis by (simp add: replace_def replace_from_absent)
qed

lemma apply_replacements_absent:
  "\<forall>(k, v) \<in> set tab. \<not> contains k t \<Longrightarrow> apply_replacements tab t = t"
  unfolding apply_replacements_def
proof (induction tab arbitrary: t)
  case Nil
  then show ?case by simp
next
  case (Cons kv tab)
  obtain k v where kv: "kv = (k, v)" by (cases kv)
  from Cons.prems kv have "replace k v t = t" by (simp add: replace_absent)
  with Cons kv show ?case by simp
qed

text \<open>
  C9. A text that contains none of the substrings the normalizer's table replaces is left
  as it is by \<^verbatim>\<open>normalize_text\<close>, and so normalizing it twice gives the same as
  normalizing it once.
\<close>

theorem normalize_text_noop:
  assumes "\<not> has_trigger x"
  shows "normalize_text x = x \<and> normalize_text (normalize_text x) = normalize_text x"
proof -
  from assms have "\<forall>(k, v) \<in> set normalize_replacements. \<not> contains k x"
    by (auto simp: has_trigger_def list_ex_iff)
  then have "normalize_text x = x"
    by (simp add: normalize_text_def apply_replacements_absent)
  then show ?thesis by simp
qed

theorem normalize_text_noop_witness:
  "\<not> has_trigger ''GROSS PREMIUM 1200''
   \<and> normalize_text ''GROSS PREMIUM 1200'' = ''GROSS PREMIUM 1200''
   \<and> normalize_text (normalize_text ''GROSS PREMIUM 1200'') = normalize_text ''GROSS PREMIUM 1200''"
proof -
  have h: "\<not> has_trigger ''GROSS PREMIUM 1200''"
    by code_simp
  show ?thesis using h normalize_text_noop [OF h] by simp
qed

subsection \<open>Soundness of the matcher\<close>

text \<open>
  When \<open>bt\<close> succeeds, the rest of the match was entered at some end position \<open>j\<close>, the
  text between \<open>i\<close> and \<open>j\<close> has the form of the pattern, and every group that was set
  on the way holds a text of the form of that group.
\<close>

lemma first_some_Some: "first_some f xs = Some y \<Longrightarrow> \<exists>x \<in> set xs. f x = Some y"
  by (induction xs) (auto split: option.splits)

lemma lit_at_length: "lit_at fl w t \<Longrightarrow> length w \<le> length t"
  by (induction fl w t rule: lit_at.induct) auto

lemma lit_at_take: "lit_at fl w t \<Longrightarrow> lit_at fl w (take (length w) t)"
  by (induction fl w t rule: lit_at.induct) auto

lemma slice_append: "i \<le> j \<Longrightarrow> j \<le> l \<Longrightarrow> slice s i l = slice s i j @ slice s j l"
proof -
  assume a: "i \<le> j" "j \<le> l"
  then have "l - i = (j - i) + (l - j)" by simp
  then have "take (l - i) (drop i s) = take (j - i) (drop i s) @ take (l - j) (drop (j - i) (drop i s))"
    by (simp add: take_add)
  with a show ?thesis by (simp add: slice_def)
qed

lemma slice_same [simp]: "slice s i i = []"
  by (simp add: slice_def)

lemma shape_CatI: "shape fl r1 u \<Longrightarrow> shape fl r2 v \<Longrightarrow> shape fl (Cat r1 r2) (u @ v)"
  by (auto simp: list_ex_iff intro!: bexI[of _ "length u"])

lemma caps_ext_leaf: "(\<And>n. \<not> sets_group r n) \<Longrightarrow> caps_ext fl r s c c"
  by (simp add: caps_ext_def)

lemma caps_ext_Cat:
  "caps_ext fl r1 s c c1 \<Longrightarrow> caps_ext fl r2 s c1 c2 \<Longrightarrow> caps_ext fl (Cat r1 r2) s c c2"
  unfolding caps_ext_def cap_ok_def by (simp; metis)

lemma caps_ext_Alt1: "caps_ext fl r1 s c c' \<Longrightarrow> caps_ext fl (Alt r1 r2) s c c'"
  unfolding caps_ext_def cap_ok_def by (simp; metis)

lemma caps_ext_Alt2: "caps_ext fl r2 s c c' \<Longrightarrow> caps_ext fl (Alt r1 r2) s c c'"
  unfolding caps_ext_def cap_ok_def by (simp; metis)

lemma caps_ext_Opt: "caps_ext fl r s c c' \<Longrightarrow> caps_ext fl (Opt r) s c c'"
  unfolding caps_ext_def cap_ok_def by (simp; metis)

lemma caps_ext_Ahead: "caps_ext fl r s c c' \<Longrightarrow> caps_ext fl (Ahead r) s c c'"
  unfolding caps_ext_def cap_ok_def by simp

lemma caps_ext_Grp:
  "caps_ext fl r s c c1 \<Longrightarrow> shape fl r (slice s i j) \<Longrightarrow> caps_ext fl (Grp n r) s c (c1(n := Some (i, j)))"
  unfolding caps_ext_def cap_ok_def by (simp; metis)

lemma bt_sound:
  "bt fl r s i c k = Some res \<Longrightarrow>
   \<exists>j c'. k j c' = Some res \<and> i \<le> j \<and> shape fl r (slice s i j) \<and> caps_ext fl r s c c'"
proof (induction fl r s i c k arbitrary: res rule: bt.induct)
  case (1 fl w s i c k)
  then have l: "lit_at fl w (drop i s)" and k: "k (i + length w) c = Some res"
    by (auto split: if_splits)
  from l have "shape fl (Lit w) (slice s i (i + length w))"
    using lit_at_length[OF l] by (simp add: slice_def lit_at_take)
  with k show ?case using caps_ext_leaf[of "Lit w" fl s c] by fastforce
next
  case (2 fl a m n g s i c k)
  define avail where "avail = length (takeWhile (amatch fl a) (drop i s))"
  define hi where "hi = (case n of None \<Rightarrow> avail | Some b \<Rightarrow> min b avail)"
  have eq: "bt fl (Rep a m n g) s i c k =
      (if hi < m then None
       else first_some (\<lambda>cnt. k (i + cnt) c) (if g then rev [m..<Suc hi] else [m..<Suc hi]))"
    by (simp only: bt.simps Let_def avail_def hi_def)
  with 2 have e2: "(if hi < m then None
       else first_some (\<lambda>cnt. k (i + cnt) c) (if g then rev [m..<Suc hi] else [m..<Suc hi])) = Some res"
    by (simp only:)
  then have nlt: "\<not> hi < m" by (cases "hi < m") simp_all
  from e2 nlt
  have fs: "first_some (\<lambda>cnt. k (i + cnt) c) (if g then rev [m..<Suc hi] else [m..<Suc hi]) = Some res"
    by (simp only: if_False)
  from first_some_Some[OF fs] obtain cnt where cnt: "m \<le> cnt" "cnt \<le> hi" and k: "k (i + cnt) c = Some res"
    by (auto split: if_splits)
  have hi_le: "hi \<le> avail" by (auto simp: hi_def split: option.splits)
  have "take cnt (drop i s) = take cnt (takeWhile (amatch fl a) (drop i s))"
    using cnt hi_le unfolding avail_def
    by (metis le_trans takeWhile_eq_take take_take min.absorb1 length_takeWhile_le)
  then have all: "list_all (amatch fl a) (take cnt (drop i s))"
    by (metis list_all_iff set_takeWhileD in_set_takeD)
  have len: "length (take cnt (drop i s)) = cnt"
    using cnt hi_le length_takeWhile_le[of "amatch fl a" "drop i s"] unfolding avail_def by simp
  have "shape fl (Rep a m n g) (slice s i (i + cnt))"
    using all len cnt by (auto simp: slice_def hi_def split: option.splits)
  with k show ?case using caps_ext_leaf[of "Rep a m n g" fl s c] by fastforce
next
  case (3 fl r1 r2 s i c k)
  from 3(3) have "bt fl r1 s i c (\<lambda>j c'. bt fl r2 s j c' k) = Some res" by simp
  from 3(2)[OF this] obtain j1 c1 where
    a: "bt fl r2 s j1 c1 k = Some res" "i \<le> j1" "shape fl r1 (slice s i j1)" "caps_ext fl r1 s c c1"
    by blast
  from 3(1)[OF a(1)] obtain j2 c2 where
    b: "k j2 c2 = Some res" "j1 \<le> j2" "shape fl r2 (slice s j1 j2)" "caps_ext fl r2 s c1 c2"
    by blast
  have "shape fl (Cat r1 r2) (slice s i j2)"
    using slice_append[OF a(2) b(2)] shape_CatI[OF a(3) b(3)] by simp
  with a b show ?case using caps_ext_Cat[OF a(4) b(4)] by (meson le_trans)
next
  case (4 fl r1 r2 s i c k)
  show ?case
  proof (cases "bt fl r1 s i c k")
    case None
    with 4(3) have "bt fl r2 s i c k = Some res" by simp
    from 4(2)[OF None this] show ?thesis using caps_ext_Alt2 by fastforce
  next
    case (Some x)
    with 4(3) have "bt fl r1 s i c k = Some res" by simp
    from 4(1)[OF this] show ?thesis using caps_ext_Alt1 by fastforce
  qed
next
  case (5 fl n r s i c k)
  from 5(2) have "bt fl r s i c (\<lambda>j c'. k j (c'(n := Some (i, j)))) = Some res" by simp
  from 5(1)[OF this] obtain j c1 where
    a: "k j (c1(n := Some (i, j))) = Some res" "i \<le> j" "shape fl r (slice s i j)" "caps_ext fl r s c c1"
    by blast
  then show ?case using caps_ext_Grp[OF a(4) a(3)] by fastforce
next
  case (6 fl r s i c k)
  show ?case
  proof (cases "bt fl r s i c k")
    case None
    with 6(2) have "k i c = Some res" by simp
    then show ?thesis using caps_ext_leaf[of "Opt r" fl s c] by fastforce
  next
    case (Some x)
    with 6(2) have "bt fl r s i c k = Some res" by simp
    from 6(1)[OF this] show ?thesis using caps_ext_Opt by fastforce
  qed
next
  case (7 fl r s i c k)
  from 7(2) obtain j c1 where
    a: "bt fl r s i c (\<lambda>j c'. Some (j, c')) = Some (j, c1)" and k: "k i c1 = Some res"
    by (auto split: option.splits)
  from 7(1)[OF a] have "caps_ext fl r s c c1" by auto
  with k show ?case using caps_ext_Ahead by fastforce
next
  case (8 fl s i c k)
  then show ?case using caps_ext_leaf[of WordB fl s c] by (fastforce split: if_splits)
next
  case (9 fl s i c k)
  then show ?case using caps_ext_leaf[of Bol fl s c] by (fastforce split: if_splits)
next
  case (10 fl s i c k)
  then show ?case using caps_ext_leaf[of Eol fl s c] by (fastforce split: if_splits)
next
  case (11 fl s i c k)
  then show ?case using caps_ext_leaf[of EndZ fl s c] by (fastforce split: if_splits)
qed

lemma match_at_sound:
  assumes "match_at r fl s i = Some m"
  shows "m_start m = i \<and> i \<le> m_end m \<and> shape fl r (group0 s m)
         \<and> caps_ext fl r s (\<lambda>n. None) (m_caps m)"
proof -
  from assms obtain j c where
    b: "bt fl r s i (\<lambda>n. None) (\<lambda>j c. Some (j, c)) = Some (j, c)"
    and m: "m = \<lparr>m_start = i, m_end = j, m_caps = c\<rparr>"
    by (auto simp: match_at_def split: option.splits)
  from bt_sound[OF b] m show ?thesis by (auto simp: group0_def)
qed

lemma group_shape:
  assumes "match_at r fl s i = Some m" and "sets_group r n"
  shows "grp_shape fl r n (group s m n)"
  using match_at_sound[OF assms(1)] assms(2)
  by (auto simp: caps_ext_def cap_ok_def group_def)

lemma search_from_sound:
  "search_from r fl s pos = Some m \<Longrightarrow> \<exists>i. pos \<le> i \<and> i \<le> length s \<and> match_at r fl s i = Some m"
  unfolding search_from_def by (drule first_some_Some) auto

lemma re_search_group_shape:
  assumes "re_search r fl s = Some m" and "sets_group r n"
  shows "grp_shape fl r n (group s m n)"
proof -
  from assms(1) obtain i where "match_at r fl s i = Some m"
    unfolding re_search_def by (blast dest: search_from_sound)
  then show ?thesis using assms(2) by (rule group_shape)
qed

subsection \<open>Debit-note financials\<close>

lemma qualifying_gt: "v \<in> set (qualifying ns) \<Longrightarrow> f_gt v (Fin 50)"
  by (induction ns) (auto split: option.splits if_splits)


lemma overriding_above_floor_in:
  assumes "f \<in> set (extract_manager_financials_in iter t)"
  shows "f_gt (overriding_insurer f) (Fin 50)"
proof -
  let ?v = "qualifying_values t"
  from assms have len: "5 \<le> length ?v"
    by (auto simp: extract_manager_financials_in_def Let_def split: if_splits)
  from assms have "overriding_insurer f = ?v ! (length ?v - 3)"
    by (auto simp: extract_manager_financials_in_def Let_def split: if_splits)
  moreover have "?v ! (length ?v - 3) \<in> set ?v" using len by simp
  ultimately show ?thesis using qualifying_gt by (simp add: qualifying_values_def)
qed

lemma overriding_above_floor:
  "f \<in> set (extract_manager_financials t) \<Longrightarrow> f_gt (overriding_insurer f) (Fin 50)"
  unfolding extract_manager_financials_def by (rule overriding_above_floor_in)

lemma table_order_manager: "table_order {''manager''} = [''manager'']"
  by (simp add: table_order_def copy_patterns_def)

text \<open>Example texts, evaluated once.\<close>

lemma example_floor_values:
  "qualifying_values ''GROSS PREMIUM 1000 200 50 30 120 MANAGER COPY'' = [Fin 1000, Fin 20050, Fin 120]"
  by code_simp

lemma example_floor_label:
  "re_search gross_premium_pattern [IGNORECASE] ''GROSS PREMIUM 1000 200 50 30 120 MANAGER COPY'' \<noteq> None"
  by code_simp

lemma example_five_values:
  "qualifying_values ''GROSS PREMIUM 1000, 200, 150, 130, 120 MANAGER COPY''
     = [Fin 1000, Fin 200, Fin 150, Fin 130, Fin 120]"
  by code_simp

lemma example_five_label:
  "re_search gross_premium_pattern [IGNORECASE] ''GROSS PREMIUM 1000, 200, 150, 130, 120 MANAGER COPY'' \<noteq> None"
  by code_simp

lemma example_five_found:
  "map fst (filter (\<lambda>(key, pat).
       re_search pat [IGNORECASE] ''GROSS PREMIUM 1000, 200, 150, 130, 120 MANAGER COPY'' \<noteq> None)
     copy_patterns) = [''manager'']"
  by code_simp

lemma example_five_copy:
  "detect_copy_types ''GROSS PREMIUM 1000, 200, 150, 130, 120 MANAGER COPY'' = {''manager''}"
  unfolding detect_copy_types_def by (simp only: example_five_found) simp

text \<open>
  C2, as stated: the text with the amounts 1000 200 50 30 120 would give one record with
  overriding insurer 50 and cost 30. It gives no record, and no text at all gives a
  record whose overriding insurer is 50, since only values above 50 are kept.
\<close>

theorem manager_example_counterexample:
  "extract_manager_financials ''GROSS PREMIUM 1000 200 50 30 120 MANAGER COPY'' = []
   \<and> \<not> (\<exists>t f. f \<in> set (extract_manager_financials t) \<and> overriding_insurer f = Fin 50)"
proof
  show "extract_manager_financials ''GROSS PREMIUM 1000 200 50 30 120 MANAGER COPY'' = []"
    by (simp add: extract_manager_financials_def extract_manager_financials_in_def
          example_floor_values)
  show "\<not> (\<exists>t f. f \<in> set (extract_manager_financials t) \<and> overriding_insurer f = Fin 50)"
  proof
    assume "\<exists>t f. f \<in> set (extract_manager_financials t) \<and> overriding_insurer f = Fin 50"
    then obtain t f where "f \<in> set (extract_manager_financials t)" "overriding_insurer f = Fin 50"
      by (elim exE conjE)
    with overriding_above_floor[of f t] show False by simp
  qed
qed

text \<open>
  C2, amended: of the amounts 1000 200 50 30 120 after a GROSS PREMIUM label only three
  values qualify (1000, 20050 read from \<^verbatim>\<open>200 50\<close>, and 120), so the text yields no
  financial record; a text with the label, the amounts 1000, 200, 150, 130, 120 and a
  MANAGER COPY marker yields exactly one record, with category manager and these five
  figures in this order.
\<close>

theorem manager_example_amended:
  "extract_manager_financials ''GROSS PREMIUM 1000 200 50 30 120 MANAGER COPY'' = []
   \<and> qualifying_values ''GROSS PREMIUM 1000 200 50 30 120 MANAGER COPY'' = [Fin 1000, Fin 20050, Fin 120]
   \<and> extract_manager_financials ''GROSS PREMIUM 1000, 200, 150, 130, 120 MANAGER COPY''
       = [\<lparr>gross_premium = Fin 1000, commission = Fin 200, overriding_insurer = Fin 150,
            cost = Fin 130, profit = Fin 120, category = ''manager''\<rparr>]"
  using example_five_label
  by (simp add: extract_manager_financials_def extract_manager_financials_in_def
        example_floor_values example_five_values example_five_copy table_order_manager)












subsection \<open>Account-statement entries\<close>

text \<open>
  C6. The entries of \<^verbatim>\<open>parse_entries\<close> are as many as the structured entries (the header
  entry and the date, debit note and premium triples); entry \<open>i\<close> takes its policy number
  and its nature from pair \<open>i\<close> of the pair sequence, whatever they are, and every entry
  from the length of the pair sequence on has neither.
\<close>

theorem parse_entries_aligned:
  assumes "parse_entries t = Inr entries"
  shows "\<exists>structured. structured_entries_of (clean_global_ocr t) = Inr structured
          \<and> length entries = length structured
          \<and> (\<forall>i < length entries.
               e_effective_date (entries ! i) = t_effective_date (structured ! i)
             \<and> e_debit_note (entries ! i) = t_debit_note (structured ! i)
             \<and> e_premium (entries ! i) = t_premium (structured ! i)
             \<and> (i < length (policy_nature_pairs_of (clean_global_ocr t)) \<longrightarrow>
                  e_policy_number (entries ! i)
                    = Some (p_policy_number (policy_nature_pairs_of (clean_global_ocr t) ! i))
                \<and> e_nature (entries ! i)
                    = Some (p_nature (policy_nature_pairs_of (clean_global_ocr t) ! i)))
             \<and> (length (policy_nature_pairs_of (clean_global_ocr t)) \<le> i \<longrightarrow>
                  e_policy_number (entries ! i) = None \<and> e_nature (entries ! i) = None))"
proof -
  from assms obtain structured where
    s: "structured_entries_of (clean_global_ocr t) = Inr structured"
    and e: "entries = align (policy_nature_pairs_of (clean_global_ocr t)) structured"
    by (auto simp: parse_entries_def Let_def split: sum.splits)
  show ?thesis
    using s unfolding e by (auto simp: align_def align_entry_def Let_def)
qed

lemma example_entries:
  "parse_entries ''PREMIUM A 1) TOTAL HXS\<newline>01/02/2025\<newline>02/03/2025''
     = Inr [\<lparr>e_effective_date = ''01/02/2025'', e_debit_note = None, e_policy_number = Some ''A'',
              e_nature = Some (Fin 1), e_premium = Fin 0\<rparr>,
            \<lparr>e_effective_date = ''02/03/2025'', e_debit_note = None, e_policy_number = None,
              e_nature = None, e_premium = Fin 0\<rparr>]"
  by code_simp

lemma example_pairs:
  "policy_nature_pairs_of (clean_global_ocr ''PREMIUM A 1) TOTAL HXS\<newline>01/02/2025\<newline>02/03/2025'')
     = [\<lparr>p_policy_number = ''A'', p_nature = Fin 1\<rparr>]"
  by code_simp

theorem parse_entries_aligned_witness:
  "\<exists>entries. parse_entries ''PREMIUM A 1) TOTAL HXS\<newline>01/02/2025\<newline>02/03/2025'' = Inr entries
     \<and> length entries = 2
     \<and> e_policy_number (entries ! 0) = Some ''A'' \<and> e_nature (entries ! 0) = Some (Fin 1)
     \<and> e_policy_number (entries ! 1) = None \<and> e_nature (entries ! 1) = None"
proof -
  let ?t = "''PREMIUM A 1) TOTAL HXS\<newline>01/02/2025\<newline>02/03/2025''"
  obtain entries where e: "parse_entries ?t = Inr entries" and l: "length entries = 2"
    using example_entries by simp
  from parse_entries_aligned[OF e] l
  have "e_policy_number (entries ! 0) = Some ''A'' \<and> e_nature (entries ! 0) = Some (Fin 1)
        \<and> e_policy_number (entries ! 1) = None \<and> e_nature (entries ! 1) = None"
    by (auto simp: example_pairs less_2_cases_iff)
  with e l show ?thesis by blast
qed

subsection \<open>Renewal entries\<close>

lemma f_gt_step: "\<not> f_gt z b \<Longrightarrow> f_gt y b \<Longrightarrow> \<not> f_gt z y"
  by (cases z; cases b; cases y) auto

lemma f_gt_irrefl: "\<not> f_gt y y"
  by (cases y) auto

lemma foldl_max_member:
  "foldl (\<lambda>best y. if f_gt y best then y else best) x xs \<in> set (x # xs)"
  by (induction xs arbitrary: x) auto

lemma foldl_max_upper:
  "\<forall>z \<in> set seen. \<not> f_gt z x \<Longrightarrow> z \<in> set seen \<union> set xs \<Longrightarrow>
   \<not> f_gt z (foldl (\<lambda>best y. if f_gt y best then y else best) x xs)"
proof (induction xs arbitrary: x seen)
  case Nil
  then show ?case by simp
next
  case (Cons y ys)
  show ?case
  proof (cases "f_gt y x")
    case True
    have "\<forall>z \<in> set (y # seen). \<not> f_gt z y"
      using Cons.prems(1) True by (auto simp: f_gt_irrefl dest: f_gt_step)
    from Cons.IH[OF this] Cons.prems(2) True show ?thesis by auto
  next
    case False
    have "\<forall>z \<in> set (y # seen). \<not> f_gt z x"
      using Cons.prems(1) False by auto
    from Cons.IH[OF this] Cons.prems(2) False show ?thesis by auto
  qed
qed

lemma f_max_is_max: "is_max_of (f_max x xs) (x # xs)"
proof -
  have "\<forall>z \<in> set [x]. \<not> f_gt z x" by (simp add: f_gt_irrefl)
  then have "\<And>z. z \<in> set (x # xs) \<Longrightarrow> \<not> f_gt z (f_max x xs)"
    unfolding f_max_def using foldl_max_upper[of "[x]" x _ xs] by auto
  then show ?thesis
    unfolding is_max_of_def list_all_iff using foldl_max_member[of x xs]
    by (auto simp: f_max_def)
qed

lemma amount_of_line_max:
  assumes "amount_of_line line = Inr a"
  shows "(num_strs_of line = [] \<and> a = Fin 0)
         \<or> (\<exists>nums. floats_of (map (replace '','' []) (num_strs_of line)) = Inr nums \<and> is_max_of a nums)"
proof (cases "num_strs_of line = []")
  case True
  with assms show ?thesis by (simp add: amount_of_line_def)
next
  case False
  with assms obtain nums where
    n: "floats_of (map (replace '','' []) (num_strs_of line)) = Inr nums" and a: "a = f_max (hd nums) (tl nums)"
    by (auto simp: amount_of_line_def Let_def split: sum.splits)
  from False n have "nums \<noteq> []"
    by (cases "num_strs_of line") (auto split: sum.splits)
  then have "is_max_of a nums"
    using f_max_is_max[of "hd nums" "tl nums"] a by simp
  with n show ?thesis by blast
qed

lemma amounts_of_lines:
  "amounts_of lines = Inr amounts \<Longrightarrow>
   length amounts = length lines \<and> (\<forall>i < length lines. amount_of_line (lines ! i) = Inr (amounts ! i))"
proof (induction lines arbitrary: amounts)
  case Nil
  then show ?case by simp
next
  case (Cons line rest)
  from Cons.prems obtain a as where
    a: "amount_of_line line = Inr a" and r: "amounts_of rest = Inr as" and e: "amounts = a # as"
    by (auto split: sum.splits)
  from Cons.IH[OF r] a e show ?case by (auto simp: nth_Cons')
qed

lemma zip_entries_nth:
  "length (zip_entries labels amounts) = length labels
   \<and> map r_label (zip_entries labels amounts) = labels
   \<and> (\<forall>i < length labels. r_amount (zip_entries labels amounts ! i)
         = (if i < length amounts then amounts ! i else Fin 0))"
  by (auto simp: zip_entries_def entry_at_def nth_enumerate_eq intro: nth_equalityI)

text \<open>
  What the entries are when nothing raises: if the text has a block from EMPLOYEES up to
  TOTAL and the numbers of its amount lines can all be converted,
  \<^verbatim>\<open>extract_renewal_entries\<close> returns one entry for each label, in the order of the
  labels; there is one amount for each amount line, the greatest of the numbers on the
  line (0 for a line without a number); and entry \<open>i\<close> has amount \<open>i\<close>, or 0 when there
  are no more than \<open>i\<close> amounts.
\<close>

lemma extract_renewal_entries_zip:
  assumes "renewal_block t = Some block"
    and "amounts_of (drop 2 (block_lines block)) = Inr amounts"
  shows "\<exists>entries. extract_renewal_entries t = Inr entries
           \<and> map r_label entries = labels_of (block_lines block)
           \<and> (\<forall>i < length entries.
                 r_amount (entries ! i) = (if i < length amounts then amounts ! i else Fin 0))
           \<and> length amounts = length (drop 2 (block_lines block))
           \<and> (\<forall>i < length amounts.
                 (num_strs_of (drop 2 (block_lines block) ! i) = [] \<and> amounts ! i = Fin 0)
               \<or> (\<exists>nums. floats_of (map (replace '','' []) (num_strs_of (drop 2 (block_lines block) ! i)))
                            = Inr nums
                          \<and> is_max_of (amounts ! i) nums))"
proof -
  let ?labels = "labels_of (block_lines block)"
  have e: "extract_renewal_entries t = Inr (zip_entries ?labels amounts)"
    using assms by (simp add: extract_renewal_entries_def Let_def)
  have l: "length (zip_entries ?labels amounts) = length ?labels"
    using zip_entries_nth by blast
  from amounts_of_lines[OF assms(2)]
  have m: "\<forall>i < length amounts.
             (num_strs_of (drop 2 (block_lines block) ! i) = [] \<and> amounts ! i = Fin 0)
           \<or> (\<exists>nums. floats_of (map (replace '','' []) (num_strs_of (drop 2 (block_lines block) ! i)))
                        = Inr nums
                      \<and> is_max_of (amounts ! i) nums)"
    using amount_of_line_max by simp
  show ?thesis
    using e l m zip_entries_nth[of ?labels amounts] amounts_of_lines[OF assms(2)]
    by (intro exI[of _ "zip_entries ?labels amounts"]) simp
qed

lemma example_block:
  "renewal_block ''EMPLOYEES\<newline>1 Clerks 2 Drivers 3 Others\<newline>1,200.50 7\<newline>300\<newline>TOTAL''
     = Some ''EMPLOYEES\<newline>1 Clerks 2 Drivers 3 Others\<newline>1,200.50 7\<newline>300\<newline>''"
  by code_simp

lemma example_block_lines:
  "block_lines ''EMPLOYEES\<newline>1 Clerks 2 Drivers 3 Others\<newline>1,200.50 7\<newline>300\<newline>''
     = [''EMPLOYEES'', ''1 Clerks 2 Drivers 3 Others'', ''1,200.50 7'', ''300'']"
  by code_simp

lemma example_labels:
  "labels_of [''EMPLOYEES'', ''1 Clerks 2 Drivers 3 Others'', ''1,200.50 7'', ''300'']
     = [''1 Clerks'', ''2 Drivers'', ''3 Others'']"
  by code_simp

lemma example_amounts:
  "amounts_of [''1,200.50 7'', ''300''] = Inr [Fin (2401 / 2), Fin 300]"
  by code_simp

lemma extract_renewal_entries_three_labels:
  "\<exists>entries.
     extract_renewal_entries ''EMPLOYEES\<newline>1 Clerks 2 Drivers 3 Others\<newline>1,200.50 7\<newline>300\<newline>TOTAL''
       = Inr entries
     \<and> map r_label entries = [''1 Clerks'', ''2 Drivers'', ''3 Others'']
     \<and> r_amount (entries ! 0) = Fin (2401 / 2)
     \<and> r_amount (entries ! 1) = Fin 300
     \<and> r_amount (entries ! 2) = Fin 0"
proof -
  define T where "T = ''EMPLOYEES\<newline>1 Clerks 2 Drivers 3 Others\<newline>1,200.50 7\<newline>300\<newline>TOTAL''"
  define B where "B = ''EMPLOYEES\<newline>1 Clerks 2 Drivers 3 Others\<newline>1,200.50 7\<newline>300\<newline>''"
  define l1 where "l1 = ''1 Clerks''"
  define l2 where "l2 = ''2 Drivers''"
  define l3 where "l3 = ''3 Others''"
  define a1 where "a1 = ''1,200.50 7''"
  define a2 where "a2 = ''300''"
  define h where "h = ''EMPLOYEES''"
  define ll where "ll = ''1 Clerks 2 Drivers 3 Others''"
  have blk: "renewal_block T = Some B"
    unfolding T_def B_def by (rule example_block)
  have lines: "block_lines B = [h, ll, a1, a2]"
    unfolding B_def h_def ll_def a1_def a2_def by (rule example_block_lines)
  have labels: "labels_of [h, ll, a1, a2] = [l1, l2, l3]"
    unfolding h_def ll_def a1_def a2_def l1_def l2_def l3_def by (rule example_labels)
  have amts: "amounts_of [a1, a2] = Inr [Fin (2401 / 2), Fin 300]"
    unfolding a1_def a2_def by (rule example_amounts)
  have "drop 2 (block_lines B) = [a1, a2]"
    by (simp add: lines numeral_2_eq_2)
  then have a: "amounts_of (drop 2 (block_lines B)) = Inr [Fin (2401 / 2), Fin 300]"
    using amts by (simp only:)
  from extract_renewal_entries_zip[OF blk a] obtain entries where
    e: "extract_renewal_entries T = Inr entries"
    and l0: "map r_label entries = labels_of (block_lines B)"
    and v: "\<forall>i < length entries.
              r_amount (entries ! i) = (if i < length [Fin (2401 / 2), Fin 300]
                                        then [Fin (2401 / 2), Fin 300] ! i else Fin 0)"
    by (elim exE conjE) (rule that, assumption+)
  from l0 have l: "map r_label entries = [l1, l2, l3]"
    by (simp only: lines labels)
  have "length (map r_label entries) = 3" by (simp only: l) simp
  then have n: "length entries = 3" by simp
  have v0: "r_amount (entries ! 0) = Fin (2401 / 2)" using v[rule_format, of 0] n by simp
  have v1: "r_amount (entries ! 1) = Fin 300" using v[rule_format, of 1] n by simp
  have v2: "r_amount (entries ! 2) = Fin 0" using v[rule_format, of 2] n by simp
  from e l v0 v1 v2
  have "\<exists>entries. extract_renewal_entries T = Inr entries \<and> map r_label entries = [l1, l2, l3]
          \<and> r_amount (entries ! 0) = Fin (2401 / 2) \<and> r_amount (entries ! 1) = Fin 300
          \<and> r_amount (entries ! 2) = Fin 0"
    by (intro exI[of _ entries] conjI)
  then show ?thesis unfolding T_def l1_def l2_def l3_def .
qed

text \<open>
  C7 at a text whose block yields two labels and two amount lines: the first amount line
  holds a comma that stands alone. The comma is matched as a number, nothing is left of
  it once the commas are removed, and \<^verbatim>\<open>float('')\<close> raises outside any
  \<^verbatim>\<open>try\<close>: no entry is returned.
\<close>

theorem extract_renewal_entries_raises:
  "renewal_block ''EMPLOYEES\<newline>1 Clerks 2 Drivers\<newline>1,200 , 7\<newline>300\<newline>TOTAL''
     = Some ''EMPLOYEES\<newline>1 Clerks 2 Drivers\<newline>1,200 , 7\<newline>300\<newline>''
   \<and> labels_of (block_lines ''EMPLOYEES\<newline>1 Clerks 2 Drivers\<newline>1,200 , 7\<newline>300\<newline>'')
     = [''1 Clerks'', ''2 Drivers'']
   \<and> drop 2 (block_lines ''EMPLOYEES\<newline>1 Clerks 2 Drivers\<newline>1,200 , 7\<newline>300\<newline>'')
     = [''1,200 , 7'', ''300'']
   \<and> extract_renewal_entries ''EMPLOYEES\<newline>1 Clerks 2 Drivers\<newline>1,200 , 7\<newline>300\<newline>TOTAL''
     = Inl (FloatValueError [])"
  by code_simp

subsection \<open>The empty text\<close>

lemma empty_debit_note:
  "parse_debit_note_text [] []
     = \<lparr>dn_account_number = [], dn_policy_number = [], dn_endorsement_number = [],
        dn_insured_or_agent = [], dn_issue_date = [], dn_insurance_class = [],
        dn_financials = []\<rparr>"
  by code_simp

lemma empty_account_statement:
  "parse_account_statement_text [] []
     = Inr \<lparr>as_issue_date = [], as_premium_due_date = [], as_account_number = ''N/A'',
            as_address = [], as_total_premium_due = Fin 0, as_entries = [], as_warnings = []\<rparr>"
  by code_simp

lemma empty_renewal_notice:
  "parse_renewal_notice_text [] []
     = Inr \<lparr>rn_issue_date = [], rn_insured = [], rn_insurance_class = [], rn_policy_number = [],
            rn_expiry_date = [], rn_ac_code = [], rn_renewal_entries = [], rn_total_earning = Fin 0,
            rn_renewal_premium = Fin 0, rn_uploaded_by = []\<rparr>"
  by code_simp

text \<open>
  C8, as stated: on the empty text every scalar field is empty. The account number of the
  account-statement record is the text \<^verbatim>\<open>N/A\<close>.
\<close>

theorem empty_input_counterexample:
  "\<exists>r. parse_account_statement_text [] [] = Inr r \<and> as_account_number r = ''N/A''
       \<and> as_account_number r \<noteq> []"
  using empty_account_statement by simp

text \<open>
  C8, amended: on the empty text each of the three parsers returns, without raising, a
  record with all its fields; every list is empty and every scalar field is the empty
  text or 0, but for the account number of the account statement, which is \<^verbatim>\<open>N/A\<close>.
\<close>

theorem empty_input_records:
  "parse_debit_note_text [] []
     = \<lparr>dn_account_number = [], dn_policy_number = [], dn_endorsement_number = [],
        dn_insured_or_agent = [], dn_issue_date = [], dn_insurance_class = [],
        dn_financials = []\<rparr>
   \<and> parse_account_statement_text [] []
     = Inr \<lparr>as_issue_date = [], as_premium_due_date = [], as_account_number = ''N/A'',
            as_address = [], as_total_premium_due = Fin 0, as_entries = [], as_warnings = []\<rparr>
   \<and> parse_renewal_notice_text [] []
     = Inr \<lparr>rn_issue_date = [], rn_insured = [], rn_insurance_class = [], rn_policy_number = [],
            rn_expiry_date = [], rn_ac_code = [], rn_renewal_entries = [], rn_total_earning = Fin 0,
            rn_renewal_premium = Fin 0, rn_uploaded_by = []\<rparr>"
  by (simp only: empty_debit_note empty_account_statement empty_renewal_notice simp_thms)

subsection \<open>The dispatcher\<close>

lemma parse_document_unsupported:
  "doc_type \<notin> {''debit_note'', ''account_statement'', ''renewal_notice''} \<Longrightarrow>
   parse_document raw_text doc_type = Inl (UnsupportedDocumentType doc_type)"
  by (simp add: parse_document_def)

lemma parse_document_recognized:
  "parse_document raw_text ''debit_note'' = Inr (DebitNote (parse_debit_note_text raw_text []))"
  "parse_document raw_text ''account_statement''
     = map_sum id AccountStatement (parse_account_statement_text raw_text [])"
  "parse_document raw_text ''renewal_notice''
     = map_sum id RenewalNotice (parse_renewal_notice_text raw_text [])"
  by (simp_all add: parse_document_def)

text \<open>
  C4 at a text the renewal parser cannot handle: an amount line with a comma that stands
  alone. The comma is taken as a number, nothing is left of it once the commas are
  removed, and \<^verbatim>\<open>float('')\<close> raises outside any \<^verbatim>\<open>try\<close>: the dispatcher raises for the
  recognized type \<^verbatim>\<open>renewal_notice\<close>.
\<close>

theorem parse_document_renewal_raises:
  "parse_document ''EMPLOYEES\<newline>A\<newline>x , y\<newline>TOTAL'' ''renewal_notice''
     = Inl (FloatValueError [])"
  by code_simp

end
